theory Spec2Isabelle
  imports Complex_Main
begin

section \<open>Data model of the aim trainer (src/src/AimTrainer.tsx)\<close>

text \<open>
  The component keeps its state in React state cells. The embedding collects the cells in
  one record and turns every handler into a function from state to state. Conventions:
  \<^item> a JavaScript \<open>number\<close> is a \<open>real\<close> (IEEE rounding is idealised away); the counters of
    \<open>GameStats\<close>, which start at 0 and only ever grow by integer constants, are \<open>int\<close>;
  \<^item> an optional field (\<open>velocityX?\<close>) is an \<open>option\<close>, \<open>None\<close> being \<open>undefined\<close>;
  \<^item> React runs the body of a handler to its end and only then applies the updater
    functions that the body passed to state setters, in the order in which they were
    queued; a local variable that an updater assigns (\<open>hitTarget\<close>) has its initial value
    wherever the body reads it;
  \<^item> a function kept by an interval reads the state of the render in which the interval was
    set up: the countdown interval is set up when \<open>isPlaying\<close> turns true and keeps the
    \<open>endGame\<close> of that render (\<open>countdownClosure\<close>), while a button calls the function of the
    current render;
  \<^item> \<open>Date.now()\<close> and \<open>Math.random()\<close> are parameters of the handler that calls them;
  \<^item> sound output (\<open>playHitSound\<close>, \<open>playMissSound\<close>) and canvas drawing change no state
    cell and are left out.
  Record fields carry a one-letter prefix where several interfaces share a field name
  (\<open>id\<close>, \<open>x\<close>, \<open>y\<close>, \<open>size\<close>, \<open>createdAt\<close>, \<open>score\<close>, \<open>distance\<close>, \<open>direction\<close>).
\<close>

datatype gameMode = Classic | Speed | Precision

datatype hitZone = Center | Ring | Edge

datatype shotDirection = Overshoot | Undershoot | Hit

record target =
  t_id :: real
  t_x :: real
  t_y :: real
  t_size :: real
  t_createdAt :: real
  t_velocityX :: "real option"
  t_velocityY :: "real option"
  t_shrinking :: "bool option"

record hitEffect =
  h_id :: real
  h_x :: real
  h_y :: real
  h_createdAt :: real
  h_type :: hitZone
  h_score :: int

record missEffect =
  m_id :: real
  m_x :: real
  m_y :: real
  m_createdAt :: real
  m_distance :: real
  m_direction :: string

record gameSettings =
  targetSize :: real
  targetSpeed :: real
  gameTime :: real
  soundEnabled :: bool
  soundVolume :: real

record gameStats =
  score :: int
  targetsHit :: int
  targetsMissed :: int
  reactionTimes :: "real list"
  startTime :: real
  centerHits :: int
  ringHits :: int
  edgeHits :: int
  totalShots :: int
  overshoots :: int
  undershoots :: int
  averageMissDistance :: real

record shotAnalysis =
  distance :: real
  direction :: shotDirection
  angle :: real

text \<open>The notifications raised through \<open>toast.success\<close> and \<open>toast.error\<close>. The success
  message is kept as the three numbers it formats (score, accuracy, centre-hit percentage).\<close>

datatype toast = ToastSuccess int real real | ToastError string

text \<open>What \<open>endGame\<close> reads from the render that defined it.\<close>

record renderClosure =
  c_gameMode :: gameMode
  c_gameStats :: gameStats
  c_settings :: gameSettings

record game =
  gameMode :: gameMode
  isPlaying :: bool
  targets :: "target list"
  hitEffects :: "hitEffect list"
  missEffects :: "missEffect list"
  lastShotAnalysis :: "shotAnalysis option"
  gameStats :: gameStats
  timeLeft :: real
  settings :: gameSettings
  canvasWidth :: real
  canvasHeight :: real
  toasts :: "toast list"
  countdownClosure :: renderClosure

section \<open>Zone classifier\<close>

definition getHitZone :: "real \<Rightarrow> real \<Rightarrow> hitZone" where
  "getHitZone dst targetSz =
     (let radius = targetSz / 2 in
      if dst \<le> radius * 0.25 then Center
      else if dst \<le> radius * 0.6 then Ring
      else Edge)"

fun getScoreMultiplier :: "hitZone \<Rightarrow> real" where
  "getScoreMultiplier Center = 2.0"
| "getScoreMultiplier Ring = 1.5"
| "getScoreMultiplier Edge = 1.0"

section \<open>Shot analysis\<close>

text \<open>\<open>Math.sqrt(Math.pow(clickX - target.x, 2) + Math.pow(clickY - target.y, 2))\<close>, the
  expression both \<open>analyzeShot\<close> and \<open>handleCanvasClick\<close> compute.\<close>

definition clickDistance :: "real \<Rightarrow> real \<Rightarrow> target \<Rightarrow> real" where
  "clickDistance clickX clickY t = sqrt ((clickX - t_x t)\<^sup>2 + (clickY - t_y t)\<^sup>2)"

text \<open>\<open>Math.atan2(y, x)\<close> on reals (there are no signed zeros).\<close>

definition atan2 :: "real \<Rightarrow> real \<Rightarrow> real" where
  "atan2 b a =
     (if 0 < a then arctan (b / a)
      else if a < 0 \<and> 0 \<le> b then arctan (b / a) + pi
      else if a < 0 then arctan (b / a) - pi
      else if 0 < b then pi / 2
      else if b < 0 then - (pi / 2)
      else 0)"

text \<open>The \<open>for\<close> loop of \<open>analyzeShot\<close>: the pair is \<open>(closestTarget, minDistance)\<close>.\<close>

fun closestLoop :: "real \<Rightarrow> real \<Rightarrow> target list \<Rightarrow> target \<times> real \<Rightarrow> target \<times> real" where
  "closestLoop clickX clickY [] acc = acc"
| "closestLoop clickX clickY (t # ts) (closest, minDistance) =
     (let d = clickDistance clickX clickY t in
      if d < minDistance then closestLoop clickX clickY ts (t, d)
      else closestLoop clickX clickY ts (closest, minDistance))"

fun analyzeShot :: "real \<Rightarrow> real \<Rightarrow> target list \<Rightarrow> shotAnalysis" where
  "analyzeShot clickX clickY [] = \<lparr>distance = 0, direction = Hit, angle = 0\<rparr>"
| "analyzeShot clickX clickY (t0 # ts) =
     (let (closestTarget, minDistance) =
            closestLoop clickX clickY (t0 # ts) (t0, clickDistance clickX clickY t0);
          ang = atan2 (clickY - t_y closestTarget) (clickX - t_x closestTarget) * 180 / pi;
          targetRadius = t_size closestTarget / 2
      in if minDistance \<le> targetRadius
         then \<lparr>distance = minDistance, direction = Hit, angle = ang\<rparr>
         else \<lparr>distance = minDistance,
               direction = (if minDistance > targetRadius * 1.5 then Overshoot else Undershoot),
               angle = ang\<rparr>)"

text \<open>The \<open>%\<close> operator of JavaScript on numbers: the remainder takes the sign of the
  dividend (the quotient is truncated towards zero).\<close>

definition jsRem :: "real \<Rightarrow> real \<Rightarrow> real" where
  "jsRem a b = a - b * of_int (if 0 \<le> a / b then \<lfloor>a / b\<rfloor> else \<lceil>a / b\<rceil>)"

definition getDirectionText :: "real \<Rightarrow> string" where
  "getDirectionText ang =
     (let normalizedAngle = jsRem (jsRem ang 360 + 360) 360 in
      if normalizedAngle \<ge> 337.5 \<or> normalizedAngle < 22.5 then ''right''
      else if normalizedAngle \<ge> 22.5 \<and> normalizedAngle < 67.5 then ''bottom-right''
      else if normalizedAngle \<ge> 67.5 \<and> normalizedAngle < 112.5 then ''bottom''
      else if normalizedAngle \<ge> 112.5 \<and> normalizedAngle < 157.5 then ''bottom-left''
      else if normalizedAngle \<ge> 157.5 \<and> normalizedAngle < 202.5 then ''left''
      else if normalizedAngle \<ge> 202.5 \<and> normalizedAngle < 247.5 then ''top-left''
      else if normalizedAngle \<ge> 247.5 \<and> normalizedAngle < 292.5 then ''top''
      else ''top-right'')"

section \<open>Target lifecycle\<close>

fun getTargetLifetime :: "gameMode \<Rightarrow> gameSettings \<Rightarrow> real" where
  "getTargetLifetime Speed s = max 800 (targetSpeed s - 500)"
| "getTargetLifetime Precision s = targetSpeed s + 1000"
| "getTargetLifetime Classic s = targetSpeed s"

fun getMaxTargets :: "gameMode \<Rightarrow> nat" where
  "getMaxTargets Speed = 4"
| "getMaxTargets Precision = 1"
| "getMaxTargets Classic = 2"

fun getSpawnRate :: "gameMode \<Rightarrow> real" where
  "getSpawnRate Speed = 600"
| "getSpawnRate Precision = 3000"
| "getSpawnRate Classic = 1200"

text \<open>What one call of \<open>spawnTarget\<close> reads from the clock and the random generator, in the
  order of the calls: \<open>Date.now() + Math.random()\<close> for the id, two draws for the position,
  \<open>Date.now()\<close> for \<open>createdAt\<close>, then the draws of the mode (Speed: speed and heading;
  Classic: the size jitter; Precision: none).\<close>

record draws =
  nowId :: real
  randId :: real
  randX :: real
  randY :: real
  nowCreated :: real
  randA :: real
  randB :: real

text \<open>The target built by \<open>spawnTarget\<close> (\<open>newTarget\<close> after the \<open>switch\<close>).\<close>

definition newTarget :: "gameMode \<Rightarrow> gameSettings \<Rightarrow> real \<Rightarrow> real \<Rightarrow> draws \<Rightarrow> target" where
  "newTarget mode s width height d =
     (let margin = targetSize s;
          t = \<lparr>t_id = nowId d + randId d,
               t_x = margin + randX d * (width - 2 * margin),
               t_y = margin + randY d * (height - 2 * margin),
               t_size = targetSize s,
               t_createdAt = nowCreated d,
               t_velocityX = None, t_velocityY = None, t_shrinking = None\<rparr>
      in case mode of
           Speed \<Rightarrow>
             (let speed = 50 + randA d * 100;
                  ang = randB d * 2 * pi
              in t\<lparr>t_velocityX := Some (cos ang * speed),
                   t_velocityY := Some (sin ang * speed),
                   t_size := max 20 (targetSize s - 15)\<rparr>)
         | Precision \<Rightarrow> t\<lparr>t_shrinking := Some True, t_size := targetSize s + 20\<rparr>
         | Classic \<Rightarrow> t\<lparr>t_size := targetSize s + (randA d - 0.5) * 10\<rparr>)"

definition spawnTarget :: "draws \<Rightarrow> game \<Rightarrow> game" where
  "spawnTarget d g =
     g\<lparr>targets := targets g @
          [newTarget (gameMode g) (settings g) (canvasWidth g) (canvasHeight g) d]\<rparr>"

text \<open>The callback that \<open>spawnTarget\<close> schedules with \<open>setTimeout\<close> for the target it made:
  the target leaves the collection, and a miss is counted when it was still there.\<close>

definition expireTarget :: "real \<Rightarrow> game \<Rightarrow> game" where
  "expireTarget i g =
     (let prev = targets g;
          filtered = filter (\<lambda>t. t_id t \<noteq> i) prev
      in (if length prev > length filtered
          then g\<lparr>gameStats := (gameStats g)\<lparr>targetsMissed := targetsMissed (gameStats g) + 1\<rparr>\<rparr>
          else g)\<lparr>targets := filtered\<rparr>)"

section \<open>Scoring\<close>

text \<open>JavaScript truthiness of an optional number: \<open>undefined\<close> and \<open>0\<close> are falsy.\<close>

definition truthy :: "real option \<Rightarrow> bool" where
  "truthy v = (case v of None \<Rightarrow> False | Some r \<Rightarrow> r \<noteq> 0)"

fun getScoreForMode :: "gameSettings \<Rightarrow> gameMode \<Rightarrow> real \<Rightarrow> target \<Rightarrow> real" where
  "getScoreForMode s Speed reactionTime t =
     (let speedBonus = (if truthy (t_velocityX t) \<or> truthy (t_velocityY t) then 50 else 0)
      in max (150 - of_int \<lfloor>reactionTime / 8\<rfloor>) 20 + speedBonus)"
| "getScoreForMode s Precision reactionTime t =
     (let sizeBonus = max 0 ((targetSize s - t_size t) * 5);
          precisionBonus = (if reactionTime < 300 then 300
                            else if reactionTime < 600 then 200 else 100)
      in precisionBonus + sizeBonus)"
| "getScoreForMode s Classic reactionTime t = max (150 - of_int \<lfloor>reactionTime / 20\<rfloor>) 25"

text \<open>The first lines of the hit branch of \<open>handleCanvasClick\<close>: reaction time, zone and
  awarded score of a target that the click landed on.\<close>

definition hitOutcome ::
  "gameSettings \<Rightarrow> gameMode \<Rightarrow> real \<Rightarrow> real \<Rightarrow> real \<Rightarrow> target \<Rightarrow> real \<times> hitZone \<times> int" where
  "hitOutcome s mode clickX clickY now t =
     (let dst = clickDistance clickX clickY t;
          reactionTime = now - t_createdAt t;
          hitZone = getHitZone dst (t_size t);
          scoreMultiplier = getScoreMultiplier hitZone;
          sc = \<lfloor>getScoreForMode s mode reactionTime t * scoreMultiplier\<rfloor>
      in (reactionTime, hitZone, sc))"

text \<open>The updater passed to \<open>setGameStats\<close> on a hit.\<close>

definition recordHit :: "real \<Rightarrow> hitZone \<Rightarrow> int \<Rightarrow> gameStats \<Rightarrow> gameStats" where
  "recordHit reactionTime hitZone sc stats =
     (let newStats = stats\<lparr>score := score stats + sc,
                           targetsHit := targetsHit stats + 1,
                           reactionTimes := reactionTimes stats @ [reactionTime],
                           totalShots := totalShots stats + 1\<rparr>
      in case hitZone of
           Center \<Rightarrow> newStats\<lparr>centerHits := centerHits stats + 1\<rparr>
         | Ring \<Rightarrow> newStats\<lparr>ringHits := ringHits stats + 1\<rparr>
         | Edge \<Rightarrow> newStats\<lparr>edgeHits := edgeHits stats + 1\<rparr>)"

text \<open>The updater passed to \<open>setGameStats\<close> on a click that hit nothing.\<close>

definition recordMiss :: "gameMode \<Rightarrow> shotAnalysis \<Rightarrow> gameStats \<Rightarrow> gameStats" where
  "recordMiss mode shot stats =
     (let penalty = (if mode = Precision then 2 else 1);
          newMissDistance =
            (averageMissDistance stats * of_int (targetsMissed stats) + distance shot)
              / of_int (targetsMissed stats + 1)
      in stats\<lparr>targetsMissed := targetsMissed stats + penalty,
               totalShots := totalShots stats + 1,
               overshoots := (if direction shot = Overshoot then overshoots stats + 1
                              else overshoots stats),
               undershoots := (if direction shot = Undershoot then undershoots stats + 1
                               else undershoots stats),
               averageMissDistance := newMissDistance\<rparr>)"

section \<open>Click handling\<close>

text \<open>The \<open>filter\<close> callback of \<open>handleCanvasClick\<close>, run over the targets in order. It
  threads what the callback writes: the hit effects, the statistics and the flag
  \<open>hitTarget\<close>. A target the click landed on is dropped from the result.\<close>

fun hitFilter ::
  "gameSettings \<Rightarrow> gameMode \<Rightarrow> real \<Rightarrow> real \<Rightarrow> real \<Rightarrow> real \<Rightarrow> target list \<Rightarrow>
   hitEffect list \<times> gameStats \<times> bool \<Rightarrow> target list \<times> hitEffect list \<times> gameStats \<times> bool" where
  "hitFilter s mode clickX clickY now rnd [] acc = ([], acc)"
| "hitFilter s mode clickX clickY now rnd (t # ts) (effs, stats, hitTarget) =
     (if clickDistance clickX clickY t \<le> t_size t / 2
      then (let (reactionTime, hitZone, sc) = hitOutcome s mode clickX clickY now t
            in hitFilter s mode clickX clickY now rnd ts
                 (effs @ [\<lparr>h_id = now + rnd, h_x = clickX, h_y = clickY, h_createdAt = now,
                            h_type = hitZone, h_score = sc\<rparr>],
                  recordHit reactionTime hitZone sc stats,
                  True))
      else (let (kept, acc') = hitFilter s mode clickX clickY now rnd ts (effs, stats, hitTarget)
            in (t # kept, acc')))"

text \<open>\<open>handleCanvasClick\<close> at click position \<open>(clickX, clickY)\<close> relative to the canvas, at
  time \<open>now\<close>; \<open>rnd\<close> is the draw that goes into the ids of the effects. The body queues the
  updater of \<open>setTargets\<close> (the hit filter) behind the update of \<open>lastShotAnalysis\<close> and goes
  on: when it tests \<open>!hitTarget\<close> the filter has not run, the flag is still \<open>false\<close>, and the
  miss branch is taken on every click the handler accepts. The hit filter runs after the
  body, on the statistics that the miss branch has updated.\<close>

definition handleCanvasClick :: "real \<Rightarrow> real \<Rightarrow> real \<Rightarrow> real \<Rightarrow> game \<Rightarrow> game" where
  "handleCanvasClick clickX clickY now rnd g =
     (if \<not> isPlaying g then g
      else
        (let shot = analyzeShot clickX clickY (targets g);
             g1 = g\<lparr>lastShotAnalysis := Some shot\<rparr>;
             g2 = g1\<lparr>missEffects := missEffects g1 @
                       [\<lparr>m_id = now + rnd, m_x = clickX, m_y = clickY, m_createdAt = now,
                         m_distance = distance shot,
                         m_direction = getDirectionText (angle shot)\<rparr>],
                    gameStats := recordMiss (gameMode g) shot (gameStats g1)\<rparr>;
             (newTargets, effs, stats, hitTarget) =
               hitFilter (settings g) (gameMode g) clickX clickY now rnd (targets g2)
                 (hitEffects g2, gameStats g2, False)
         in g2\<lparr>targets := newTargets, hitEffects := effs, gameStats := stats\<rparr>))"

section \<open>Animation, spawning and clean-up ticks\<close>

text \<open>The body of the \<open>map\<close> in the animation interval (every 16 ms).\<close>

definition animateTarget :: "gameMode \<Rightarrow> gameSettings \<Rightarrow> real \<Rightarrow> real \<Rightarrow> real \<Rightarrow> target \<Rightarrow> target" where
  "animateTarget mode s width height now t =
     (let moved =
            (case (t_velocityX t, t_velocityY t) of
               (Some vx, Some vy) \<Rightarrow>
                 (let nx = t_x t + vx * 0.016;
                      ny = t_y t + vy * 0.016;
                      nvx = (if nx \<le> t_size t / 2 \<or> nx \<ge> width - t_size t / 2 then - vx else vx);
                      nvy = (if ny \<le> t_size t / 2 \<or> ny \<ge> height - t_size t / 2 then - vy else vy)
                  in t\<lparr>t_x := max (t_size t / 2) (min (width - t_size t / 2) nx),
                       t_y := max (t_size t / 2) (min (height - t_size t / 2) ny),
                       t_velocityX := Some nvx, t_velocityY := Some nvy\<rparr>)
             | _ \<Rightarrow> t)
      in if t_shrinking t = Some True
         then (let age = now - t_createdAt t;
                   maxAge = getTargetLifetime mode s;
                   shrinkFactor = max 0.3 (1 - (age / maxAge) * 0.7)
               in moved\<lparr>t_size := (targetSize s + 20) * shrinkFactor\<rparr>)
         else moved)"

definition animationTick :: "real \<Rightarrow> game \<Rightarrow> game" where
  "animationTick now g =
     (if \<not> isPlaying g then g
      else g\<lparr>targets := map (animateTarget (gameMode g) (settings g)
                                (canvasWidth g) (canvasHeight g) now) (targets g)\<rparr>)"

definition spawnTick :: "draws \<Rightarrow> game \<Rightarrow> game" where
  "spawnTick d g =
     (if \<not> isPlaying g then g
      else if length (targets g) < getMaxTargets (gameMode g) then spawnTarget d g
      else g)"

definition cleanupTick :: "real \<Rightarrow> game \<Rightarrow> game" where
  "cleanupTick now g =
     g\<lparr>hitEffects := filter (\<lambda>e. now - h_createdAt e < 1000) (hitEffects g),
       missEffects := filter (\<lambda>e. now - m_createdAt e < 1500) (missEffects g)\<rparr>"

section \<open>Persistence (the Convex mutation \<open>saveSession\<close> and its table)\<close>

record settingsSnapshot =
  ss_targetSize :: real
  ss_targetSpeed :: real
  ss_gameTime :: real

text \<open>The argument object of \<open>saveSession\<close>, as its validator declares it.\<close>

record sessionArgs =
  a_gameMode :: string
  a_score :: real
  a_accuracy :: real
  a_averageReactionTime :: real
  a_targetsHit :: real
  a_targetsMissed :: real
  a_duration :: real
  a_centerHits :: "real option"
  a_ringHits :: "real option"
  a_edgeHits :: "real option"
  a_settings :: settingsSnapshot

text \<open>A document of the table \<open>aimSessions\<close>: \<open>{ userId, ...args }\<close>.\<close>

record aimSession =
  r_userId :: string
  r_args :: sessionArgs

text \<open>The mutation context: \<open>auth\<close> is what \<open>getAuthUserId(ctx)\<close> returns (a function of the
  library \<open>@convex-dev/auth\<close>: \<open>null\<close>, here \<open>None\<close>, or the id of the user's document, a
  string), \<open>db\<close> is the table.\<close>

record ctx =
  auth :: "string option"
  db :: "aimSession list"

text \<open>The test \<open>!userId\<close>: \<open>null\<close> and the empty string are falsy.\<close>

definition falsyId :: "string option \<Rightarrow> bool" where
  "falsyId userId = (case userId of None \<Rightarrow> True | Some u \<Rightarrow> u = [])"

text \<open>The handler of \<open>saveSession\<close>: \<open>Inl\<close> is the thrown error with its message, \<open>Inr\<close> the
  position of the inserted document together with the table after the insert.\<close>

definition saveSession :: "ctx \<Rightarrow> sessionArgs \<Rightarrow> string + nat \<times> aimSession list" where
  "saveSession c args =
     (let userId = auth c in
      if falsyId userId then Inl ''Must be logged in to save session''
      else Inr (length (db c), db c @ [\<lparr>r_userId = the userId, r_args = args\<rparr>]))"

section \<open>Session state machine\<close>

definition modeString :: "gameMode \<Rightarrow> string" where
  "modeString mode = (case mode of Classic \<Rightarrow> ''classic'' | Speed \<Rightarrow> ''speed''
                                 | Precision \<Rightarrow> ''precision'')"

text \<open>The state that the functions of the current render read.\<close>

definition currentRender :: "game \<Rightarrow> renderClosure" where
  "currentRender g =
     \<lparr>c_gameMode = gameMode g, c_gameStats = gameStats g, c_settings = settings g\<rparr>"

text \<open>\<open>startGame\<close>. All its updates land in one render, in which \<open>isPlaying\<close> is true and
  the statistics are the reset ones: the countdown interval is set up after that render
  and keeps its \<open>endGame\<close>.\<close>

definition startGame :: "real \<Rightarrow> draws \<Rightarrow> game \<Rightarrow> game" where
  "startGame now d g =
     (let g1 = spawnTarget d
                 (g\<lparr>isPlaying := True,
                    timeLeft := gameTime (settings g),
                    gameStats := \<lparr>score = 0, targetsHit = 0, targetsMissed = 0,
                                   reactionTimes = [], startTime = now, centerHits = 0,
                                   ringHits = 0, edgeHits = 0, totalShots = 0,
                                   overshoots = 0, undershoots = 0,
                                   averageMissDistance = 0\<rparr>,
                    targets := [], hitEffects := [], missEffects := [],
                    lastShotAnalysis := None\<rparr>)
      in g1\<lparr>countdownClosure := currentRender g1\<rparr>)"

text \<open>\<open>accuracy\<close> and \<open>avgReactionTime\<close> as \<open>endGame\<close> computes them.\<close>

definition accuracy :: "gameStats \<Rightarrow> real" where
  "accuracy stats =
     (let totalTargets = targetsHit stats + targetsMissed stats
      in if totalTargets > 0
         then (of_int (targetsHit stats) / of_int totalTargets) * 100 else 0)"

definition avgReactionTime :: "gameStats \<Rightarrow> real" where
  "avgReactionTime stats =
     (if length (reactionTimes stats) > 0
      then foldl (+) 0 (reactionTimes stats) / of_nat (length (reactionTimes stats)) else 0)"

text \<open>The object that \<open>endGame\<close> passes to \<open>saveSession\<close>, from the mode, statistics and
  settings of its render.\<close>

definition sessionSummary :: "renderClosure \<Rightarrow> sessionArgs" where
  "sessionSummary cl =
     (let stats = c_gameStats cl in
      \<lparr>a_gameMode = modeString (c_gameMode cl),
       a_score = of_int (score stats),
       a_accuracy = accuracy stats,
       a_averageReactionTime = avgReactionTime stats,
       a_targetsHit = of_int (targetsHit stats),
       a_targetsMissed = of_int (targetsMissed stats),
       a_duration = gameTime (c_settings cl),
       a_centerHits = Some (of_int (centerHits stats)),
       a_ringHits = Some (of_int (ringHits stats)),
       a_edgeHits = Some (of_int (edgeHits stats)),
       a_settings = \<lparr>ss_targetSize = targetSize (c_settings cl),
                     ss_targetSpeed = targetSpeed (c_settings cl),
                     ss_gameTime = gameTime (c_settings cl)\<rparr>\<rparr>)"

text \<open>\<open>endGame\<close> as defined in the render \<open>cl\<close>, run on the state \<open>g\<close>. The awaited call of
  the mutation is the parameter \<open>save\<close>: it resolves (\<open>Inr\<close>) or rejects (\<open>Inl\<close>), for whatever
  reason. The result of the call is returned beside the new state, so that what reached
  the backend can be examined.\<close>

definition endGame ::
  "(sessionArgs \<Rightarrow> string + 'r) \<Rightarrow> renderClosure \<Rightarrow> game \<Rightarrow> game \<times> (string + 'r)" where
  "endGame save cl g =
     (let stats = c_gameStats cl;
          g1 = g\<lparr>isPlaying := False, targets := []\<rparr>;
          res = save (sessionSummary cl)
      in case res of
           Inr _ \<Rightarrow>
             (let centerPercent =
                    (if targetsHit stats > 0
                     then of_int (centerHits stats) / of_int (targetsHit stats) * 100 else 0)
              in (g1\<lparr>toasts := toasts g1 @
                        [ToastSuccess (score stats) (accuracy stats) centerPercent]\<rparr>, res))
         | Inl _ \<Rightarrow> (g1\<lparr>toasts := toasts g1 @ [ToastError ''Failed to save game session'']\<rparr>, res))"

text \<open>The stop button calls the \<open>stopGame\<close> of the current render.\<close>

definition stopGame :: "(sessionArgs \<Rightarrow> string + 'r) \<Rightarrow> game \<Rightarrow> game \<times> (string + 'r)" where
  "stopGame save g = endGame save (currentRender g) g"

text \<open>One firing of the countdown interval (every second while playing), which calls the
  \<open>endGame\<close> it was set up with. The second component is the result of the save when this
  firing ended the session.\<close>

definition countdownTick ::
  "(sessionArgs \<Rightarrow> string + 'r) \<Rightarrow> game \<Rightarrow> game \<times> (string + 'r) option" where
  "countdownTick save g =
     (if \<not> isPlaying g then (g, None)
      else if timeLeft g \<le> 1
      then (let (g1, res) = endGame save (countdownClosure g) g in (g1\<lparr>timeLeft := 0\<rparr>, Some res))
      else (g\<lparr>timeLeft := timeLeft g - 1\<rparr>, None))"

section \<open>Sessions as event traces\<close>

text \<open>Handlers run one at a time, each to completion. A session is \<open>startGame\<close> followed by
  any sequence of the events below, in any order and at any times.\<close>

datatype event =
    Click real real real real
  | Expire real
  | SpawnTick draws
  | AnimationTick real
  | CleanupTick real
  | CountdownTick

fun step :: "(sessionArgs \<Rightarrow> string + 'r) \<Rightarrow> event \<Rightarrow> game \<Rightarrow> game" where
  "step save (Click clickX clickY now rnd) g = handleCanvasClick clickX clickY now rnd g"
| "step save (Expire i) g = expireTarget i g"
| "step save (SpawnTick d) g = spawnTick d g"
| "step save (AnimationTick now) g = animationTick now g"
| "step save (CleanupTick now) g = cleanupTick now g"
| "step save CountdownTick g = fst (countdownTick save g)"

fun run :: "(sessionArgs \<Rightarrow> string + 'r) \<Rightarrow> event list \<Rightarrow> game \<Rightarrow> game" where
  "run save [] g = g"
| "run save (e # es) g = run save es (step save e g)"

text \<open>The click lands on a target: the test of the \<open>filter\<close> callback.\<close>

definition landsOn :: "real \<Rightarrow> real \<Rightarrow> target \<Rightarrow> bool" where
  "landsOn clickX clickY t = (clickDistance clickX clickY t \<le> t_size t / 2)"


text \<open>An expiry callback that finds its target still live.\<close>

definition passiveExpiry :: "real \<Rightarrow> game \<Rightarrow> bool" where
  "passiveExpiry i g = (length (targets g) > length (filter (\<lambda>t. t_id t \<noteq> i) (targets g)))"


fun passiveExpiries :: "(sessionArgs \<Rightarrow> string + 'r) \<Rightarrow> event list \<Rightarrow> game \<Rightarrow> nat" where
  "passiveExpiries save [] g = 0"
| "passiveExpiries save (e # es) g =
     (case e of Expire i \<Rightarrow> (if passiveExpiry i g then 1 else 0) | _ \<Rightarrow> 0)
     + passiveExpiries save es (step save e g)"

text \<open>A click is recorded as a miss when the handler creates a miss effect for it.\<close>

definition missRecorded :: "real \<Rightarrow> real \<Rightarrow> real \<Rightarrow> real \<Rightarrow> game \<Rightarrow> bool" where
  "missRecorded clickX clickY now rnd g =
     (length (missEffects (handleCanvasClick clickX clickY now rnd g)) > length (missEffects g))"


text \<open>The distances that the shot analysis reports for the clicks of a trace that are
  recorded as a miss, in order.\<close>

fun missDistances :: "(sessionArgs \<Rightarrow> string + 'r) \<Rightarrow> event list \<Rightarrow> game \<Rightarrow> real list" where
  "missDistances save [] g = []"
| "missDistances save (e # es) g =
     (case e of
        Click clickX clickY now rnd \<Rightarrow>
          (if missRecorded clickX clickY now rnd g
           then [distance (analyzeShot clickX clickY (targets g))] else [])
      | _ \<Rightarrow> [])
     @ missDistances save es (step save e g)"

section \<open>Initial state and vocabulary of the properties\<close>

text \<open>The initial values of the state cells (the arguments of \<open>useState\<close>); the canvas has
  its windowed size of 800 by 600. No countdown interval exists yet; the field for its
  closure holds the initial render.\<close>

definition initialSettings :: gameSettings where
  "initialSettings = \<lparr>targetSize = 50, targetSpeed = 2000, gameTime = 30,
                        soundEnabled = True, soundVolume = 0.7\<rparr>"

definition initialGame :: game where
  "initialGame =
     \<lparr>gameMode = Classic, isPlaying = False, targets = [], hitEffects = [], missEffects = [],
      lastShotAnalysis = None,
      gameStats = \<lparr>score = 0, targetsHit = 0, targetsMissed = 0, reactionTimes = [],
                    startTime = 0, centerHits = 0, ringHits = 0, edgeHits = 0,
                    totalShots = 0, overshoots = 0, undershoots = 0,
                    averageMissDistance = 0\<rparr>,
      timeLeft = 30, settings = initialSettings,
      canvasWidth = 800, canvasHeight = 600, toasts = [],
      countdownClosure =
        \<lparr>c_gameMode = Classic,
         c_gameStats = \<lparr>score = 0, targetsHit = 0, targetsMissed = 0, reactionTimes = [],
                        startTime = 0, centerHits = 0, ringHits = 0, edgeHits = 0,
                        totalShots = 0, overshoots = 0, undershoots = 0,
                        averageMissDistance = 0\<rparr>,
         c_settings = initialSettings\<rparr>\<rparr>"

text \<open>A target has velocity when a velocity component is set. Its velocity is nonzero when
  some set component differs from 0: this is what the truthiness test of
  \<open>getScoreForMode\<close> reads. The speed of a target is the length of its velocity vector.\<close>

definition hasVelocity :: "target \<Rightarrow> bool" where
  "hasVelocity t = (t_velocityX t \<noteq> None \<or> t_velocityY t \<noteq> None)"

definition velocityNonzero :: "target \<Rightarrow> bool" where
  "velocityNonzero t =
     (if hasVelocity t then truthy (t_velocityX t) \<or> truthy (t_velocityY t) else True)"

definition velocityMagnitude :: "target \<Rightarrow> real" where
  "velocityMagnitude t =
     (case (t_velocityX t, t_velocityY t) of
        (Some vx, Some vy) \<Rightarrow> sqrt (vx\<^sup>2 + vy\<^sup>2)
      | _ \<Rightarrow> 0)"

section \<open>Basic facts\<close>

text \<open>Evaluating concrete sessions: clicks level with a target's centre have an exact
  distance.\<close>

lemma clickDistance_horizontal:
  "t_y t = cy \<Longrightarrow> clickDistance cx cy t = \<bar>cx - t_x t\<bar>"
  by (simp add: clickDistance_def)

lemmas session_defs =
  startGame_def currentRender_def spawnTarget_def spawnTick_def newTarget_def expireTarget_def
  handleCanvasClick_def recordMiss_def initialGame_def initialSettings_def Let_def

lemma recordHit_fields:
  "targetsHit (recordHit rt z sc st) = targetsHit st + 1"
  "totalShots (recordHit rt z sc st) = totalShots st + 1"
  "targetsMissed (recordHit rt z sc st) = targetsMissed st"
  "averageMissDistance (recordHit rt z sc st) = averageMissDistance st"
  "overshoots (recordHit rt z sc st) = overshoots st"
  "undershoots (recordHit rt z sc st) = undershoots st"
  "score (recordHit rt z sc st) = score st + sc"
  by (cases z; simp add: recordHit_def Let_def)+

lemma recordMiss_fields:
  "score (recordMiss mode shot st) = score st"
  "targetsHit (recordMiss mode shot st) = targetsHit st"
  "totalShots (recordMiss mode shot st) = totalShots st + 1"
  "targetsMissed (recordMiss mode shot st) =
     targetsMissed st + (if mode = Precision then 2 else 1)"
  "overshoots (recordMiss mode shot st) =
     (if direction shot = Overshoot then overshoots st + 1 else overshoots st)"
  "undershoots (recordMiss mode shot st) =
     (if direction shot = Undershoot then undershoots st + 1 else undershoots st)"
  "averageMissDistance (recordMiss mode shot st) =
     (averageMissDistance st * of_int (targetsMissed st) + distance shot)
       / of_int (targetsMissed st + 1)"
  by (simp_all add: recordMiss_def Let_def)

section \<open>Zone thresholds and multipliers\<close>

text \<open>
  Claim C6. For every distance \<open>d \<ge> 0\<close> and target size \<open>s > 0\<close>, with radius \<open>s/2\<close>: the zone
  is Center exactly when \<open>d \<le> 0.25 \<cdot> radius\<close>, Ring exactly when
  \<open>0.25 \<cdot> radius < d \<le> 0.6 \<cdot> radius\<close>, and Edge otherwise. The zones nest by radius fraction:
  a click closer to the centre than a Center click is a Center click, and a click closer
  than a Ring click is never an Edge click. The multipliers are 2.0 for Center, 1.5 for
  Ring and 1.0 for Edge, strictly decreasing.
\<close>

theorem getHitZone_thresholds:
  assumes "0 \<le> d" and "0 < s"
  shows "(getHitZone d s = Center \<longleftrightarrow> d \<le> 0.25 * (s / 2))
       \<and> (getHitZone d s = Ring \<longleftrightarrow> 0.25 * (s / 2) < d \<and> d \<le> 0.6 * (s / 2))
       \<and> (getHitZone d s = Edge \<longleftrightarrow> \<not> d \<le> 0.6 * (s / 2))
       \<and> (\<forall>d'. 0 \<le> d' \<and> d' \<le> d \<and> getHitZone d s = Center \<longrightarrow> getHitZone d' s = Center)
       \<and> (\<forall>d'. 0 \<le> d' \<and> d' \<le> d \<and> getHitZone d s = Ring \<longrightarrow> getHitZone d' s \<noteq> Edge)
       \<and> getScoreMultiplier Center = 2.0 \<and> getScoreMultiplier Ring = 1.5
       \<and> getScoreMultiplier Edge = 1.0
       \<and> getScoreMultiplier Center > getScoreMultiplier Ring
       \<and> getScoreMultiplier Ring > getScoreMultiplier Edge"
  using assms by (auto simp: getHitZone_def Let_def)

theorem getHitZone_thresholds_witness:
  "(0::real) \<le> 5 \<and> (0::real) < 50 \<and> getHitZone 5 50 = Center"
proof -
  have h1: "(0::real) \<le> 5" and h2: "(0::real) < 50" by simp_all
  from getHitZone_thresholds [OF h1 h2]
  have "getHitZone 5 50 = Center \<longleftrightarrow> (5::real) \<le> 0.25 * (50 / 2)" by (rule conjunct1)
  then show ?thesis by simp
qed

section \<open>Awarded score\<close>

text \<open>Every target that \<open>spawnTarget\<close> makes has a nonzero velocity or none at all (a Speed
  target moves at 50 px/s or more), and the animation step only ever flips the sign of a
  component. So for the targets of a session, "has velocity" and the truthiness test of
  \<open>getScoreForMode\<close> agree.\<close>

lemma newTarget_velocityNonzero:
  assumes "0 \<le> randA d"
  shows "velocityNonzero (newTarget mode s width height d)"
proof (cases mode)
  case Speed
  have sp: "50 + randA d * 100 \<noteq> 0" using assms by (simp add: add_nonneg_eq_0_iff)
  have "cos (randB d * 2 * pi) \<noteq> 0 \<or> sin (randB d * 2 * pi) \<noteq> 0"
    using sin_zero_abs_cos_one by fastforce
  with sp Speed show ?thesis
    by (auto simp: velocityNonzero_def hasVelocity_def newTarget_def Let_def truthy_def)
qed (simp_all add: velocityNonzero_def hasVelocity_def newTarget_def Let_def)

lemma animateTarget_velocityNonzero:
  assumes "velocityNonzero t"
  shows "velocityNonzero (animateTarget mode s width height now t)"
  using assms
  by (auto simp: velocityNonzero_def hasVelocity_def animateTarget_def Let_def truthy_def
      split: option.splits if_splits)

lemma speedBonus_hasVelocity:
  "velocityNonzero t \<Longrightarrow> (truthy (t_velocityX t) \<or> truthy (t_velocityY t)) = hasVelocity t"
  by (auto simp: velocityNonzero_def hasVelocity_def truthy_def split: if_splits)

lemma hitOutcome_score:
  "snd (snd (hitOutcome s mode clickX clickY now t)) =
     \<lfloor>getScoreForMode s mode (now - t_createdAt t) t
        * getScoreMultiplier (getHitZone (clickDistance clickX clickY t) (t_size t))\<rfloor>"
  by (simp add: hitOutcome_def Let_def)

text \<open>
  Claim C5. For every hit, the awarded score is \<open>floor(base \<cdot> zoneMultiplier(zone))\<close>, where
  \<open>base\<close> is, in Speed mode, \<open>max(150 - floor(reactionTime/8), 20)\<close> plus 50 if the target had
  velocity; in Precision mode, \<open>max(0, (settings.targetSize - target.size) \<cdot> 5)\<close> plus 300 if
  the reaction time is below 300 ms, 200 if below 600 ms, else 100; in Classic mode,
  \<open>max(150 - floor(reactionTime/20), 25)\<close>. In particular a Classic Center hit after 100 ms
  awards 290, and a Precision Ring hit after 250 ms on a target of size 40 with
  \<open>settings.targetSize = 50\<close> awards 525. The awarded score is what a click on a single
  target adds to the session score and records in the hit effect. The target is one whose
  velocity, when set, is nonzero, as every target of a session is.
\<close>

theorem hit_score_formula:
  assumes "velocityNonzero t"
  shows "snd (snd (hitOutcome s mode clickX clickY now t)) =
           \<lfloor>(case mode of
                Speed \<Rightarrow> max (150 - of_int \<lfloor>(now - t_createdAt t) / 8\<rfloor>) 20
                           + (if hasVelocity t then 50 else 0)
              | Precision \<Rightarrow> max 0 ((targetSize s - t_size t) * 5)
                           + (if now - t_createdAt t < 300 then 300
                              else if now - t_createdAt t < 600 then 200 else 100)
              | Classic \<Rightarrow> max (150 - of_int \<lfloor>(now - t_createdAt t) / 20\<rfloor>) 25)
             * getScoreMultiplier (getHitZone (clickDistance clickX clickY t) (t_size t))\<rfloor>
       \<and> (now - t_createdAt t = 100 \<and>
            getHitZone (clickDistance clickX clickY t) (t_size t) = Center \<longrightarrow>
            snd (snd (hitOutcome s Classic clickX clickY now t)) = 290)
       \<and> (now - t_createdAt t = 250 \<and> t_size t = 40 \<and> targetSize s = 50 \<and>
            getHitZone (clickDistance clickX clickY t) (t_size t) = Ring \<longrightarrow>
            snd (snd (hitOutcome s Precision clickX clickY now t)) = 525)
       \<and> (isPlaying g \<and> targets g = [t] \<and> landsOn clickX clickY t \<longrightarrow>
            score (gameStats (handleCanvasClick clickX clickY now rnd g)) =
              score (gameStats g)
              + snd (snd (hitOutcome (settings g) (gameMode g) clickX clickY now t))
            \<and> map h_score (hitEffects (handleCanvasClick clickX clickY now rnd g)) =
              map h_score (hitEffects g)
              @ [snd (snd (hitOutcome (settings g) (gameMode g) clickX clickY now t))])"
proof (intro conjI impI)
  show "snd (snd (hitOutcome s mode clickX clickY now t)) =
           \<lfloor>(case mode of
                Speed \<Rightarrow> max (150 - of_int \<lfloor>(now - t_createdAt t) / 8\<rfloor>) 20
                           + (if hasVelocity t then 50 else 0)
              | Precision \<Rightarrow> max 0 ((targetSize s - t_size t) * 5)
                           + (if now - t_createdAt t < 300 then 300
                              else if now - t_createdAt t < 600 then 200 else 100)
              | Classic \<Rightarrow> max (150 - of_int \<lfloor>(now - t_createdAt t) / 20\<rfloor>) 25)
             * getScoreMultiplier (getHitZone (clickDistance clickX clickY t) (t_size t))\<rfloor>"
    unfolding hitOutcome_score
    by (cases mode) (simp_all add: Let_def speedBonus_hasVelocity [OF assms] add.commute)
next
  assume "now - t_createdAt t = 100 \<and>
          getHitZone (clickDistance clickX clickY t) (t_size t) = Center"
  then show "snd (snd (hitOutcome s Classic clickX clickY now t)) = 290"
    unfolding hitOutcome_score by auto
next
  assume "now - t_createdAt t = 250 \<and> t_size t = 40 \<and> targetSize s = 50 \<and>
          getHitZone (clickDistance clickX clickY t) (t_size t) = Ring"
  then show "snd (snd (hitOutcome s Precision clickX clickY now t)) = 525"
    unfolding hitOutcome_score by (auto simp: Let_def)
next
  assume a: "isPlaying g \<and> targets g = [t] \<and> landsOn clickX clickY t"
  then show "score (gameStats (handleCanvasClick clickX clickY now rnd g)) =
              score (gameStats g)
              + snd (snd (hitOutcome (settings g) (gameMode g) clickX clickY now t))"
    by (simp add: handleCanvasClick_def landsOn_def split_beta Let_def recordHit_fields
          recordMiss_fields)
  from a show "map h_score (hitEffects (handleCanvasClick clickX clickY now rnd g)) =
              map h_score (hitEffects g)
              @ [snd (snd (hitOutcome (settings g) (gameMode g) clickX clickY now t))]"
    by (simp add: handleCanvasClick_def landsOn_def split_beta Let_def)
qed

theorem hit_score_formula_witness:
  "velocityNonzero \<lparr>t_id = 0, t_x = 50, t_y = 50, t_size = 50, t_createdAt = 0,
        t_velocityX = None, t_velocityY = None, t_shrinking = None\<rparr>
   \<and> snd (snd (hitOutcome initialSettings Classic 50 50 100
       \<lparr>t_id = 0, t_x = 50, t_y = 50, t_size = 50, t_createdAt = 0,
        t_velocityX = None, t_velocityY = None, t_shrinking = None\<rparr>)) = 290
   \<and> velocityNonzero \<lparr>t_id = 0, t_x = 50, t_y = 50, t_size = 40, t_createdAt = 0,
        t_velocityX = None, t_velocityY = None, t_shrinking = Some True\<rparr>
   \<and> snd (snd (hitOutcome initialSettings Precision 58 50 250
       \<lparr>t_id = 0, t_x = 50, t_y = 50, t_size = 40, t_createdAt = 0,
        t_velocityX = None, t_velocityY = None, t_shrinking = Some True\<rparr>)) = 525"
proof -
  let ?t = "\<lparr>t_id = 0, t_x = 50, t_y = 50, t_size = 50, t_createdAt = 0,
        t_velocityX = None, t_velocityY = None, t_shrinking = None\<rparr>"
  let ?u = "\<lparr>t_id = 0, t_x = 50, t_y = 50, t_size = 40, t_createdAt = 0,
        t_velocityX = None, t_velocityY = None, t_shrinking = Some True\<rparr>"
  have h: "velocityNonzero ?t" and k: "velocityNonzero ?u"
    by (simp_all add: velocityNonzero_def hasVelocity_def)
  have z: "getHitZone (clickDistance 50 50 ?t) (t_size ?t) = Center"
    by (simp add: getHitZone_def clickDistance_horizontal)
  have y: "getHitZone (clickDistance 58 50 ?u) (t_size ?u) = Ring"
    by (simp add: getHitZone_def clickDistance_horizontal)
  from hit_score_formula [OF h, of initialSettings Classic 50 50 100] z
  have 1: "snd (snd (hitOutcome initialSettings Classic 50 50 100 ?t)) = 290" by simp
  from hit_score_formula [OF k, of initialSettings Precision 58 50 250] y
  have 2: "snd (snd (hitOutcome initialSettings Precision 58 50 250 ?u)) = 525"
    by (simp add: initialSettings_def)
  from h k 1 2 show ?thesis by simp
qed

section \<open>Spawn shapes\<close>

text \<open>
  Claim C7, as the code has it. For every spawn whose draw for the speed lies in \<open>[0,1)\<close>:
  in Speed mode the diameter is \<open>max(20, settings.targetSize - 15)\<close> and the velocity is
  \<open>(cos a \<cdot> v, sin a \<cdot> v)\<close> for the heading \<open>a = 2\<pi> \<cdot> draw\<close> and the speed
  \<open>v = 50 + 100 \<cdot> draw\<close>, so that the speed lies in \<open>[50,150)\<close>; in Classic mode the diameter
  lies within 5 px of \<open>settings.targetSize\<close>, and the target has no velocity and no shrink
  flag.
\<close>

theorem spawn_shapes:
  assumes "0 \<le> randA d" and "randA d < 1"
  shows "t_size (newTarget Speed s width height d) = max 20 (targetSize s - 15)
       \<and> t_velocityX (newTarget Speed s width height d)
           = Some (cos (randB d * 2 * pi) * (50 + randA d * 100))
       \<and> t_velocityY (newTarget Speed s width height d)
           = Some (sin (randB d * 2 * pi) * (50 + randA d * 100))
       \<and> velocityMagnitude (newTarget Speed s width height d) = 50 + randA d * 100
       \<and> 50 \<le> velocityMagnitude (newTarget Speed s width height d)
       \<and> velocityMagnitude (newTarget Speed s width height d) < 150
       \<and> targetSize s - 5 \<le> t_size (newTarget Classic s width height d)
       \<and> t_size (newTarget Classic s width height d) < targetSize s + 5
       \<and> t_velocityX (newTarget Classic s width height d) = None
       \<and> t_velocityY (newTarget Classic s width height d) = None
       \<and> t_shrinking (newTarget Classic s width height d) = None"
proof -
  have "(cos a * v)\<^sup>2 + (sin a * v)\<^sup>2 = v\<^sup>2" for a v :: real
  proof -
    have "(cos a * v)\<^sup>2 + (sin a * v)\<^sup>2 = v\<^sup>2 * ((cos a)\<^sup>2 + (sin a)\<^sup>2)"
      by (simp only: power_mult_distrib distrib_left mult.commute)
    also have "\<dots> = v\<^sup>2" by simp
    finally show ?thesis .
  qed
  then have m: "velocityMagnitude (newTarget Speed s width height d) = 50 + randA d * 100"
    using assms(1) by (simp add: newTarget_def velocityMagnitude_def Let_def)
  show ?thesis unfolding m using assms by (simp add: newTarget_def Let_def)
qed

theorem spawn_shapes_witness:
  "(0::real) \<le> randA \<lparr>nowId = 0, randId = 0, randX = 0, randY = 0, nowCreated = 0,
                       randA = 3/4, randB = 0\<rparr>
   \<and> randA \<lparr>nowId = 0, randId = 0, randX = 0, randY = 0, nowCreated = 0,
             randA = 3/4, randB = 0\<rparr> < (1::real)
   \<and> t_size (newTarget Speed initialSettings 800 600
        \<lparr>nowId = 0, randId = 0, randX = 0, randY = 0, nowCreated = 0,
         randA = 3/4, randB = 0\<rparr>) = 35"
proof -
  let ?d = "\<lparr>nowId = 0, randId = 0, randX = 0, randY = 0, nowCreated = 0,
             randA = 3/4, randB = 0\<rparr> :: draws"
  have h1: "0 \<le> randA ?d" and h2: "randA ?d < 1" by simp_all
  from spawn_shapes [OF h1 h2, of initialSettings 800 600]
  have "t_size (newTarget Speed initialSettings 800 600 ?d)
          = max 20 (targetSize initialSettings - 15)"
    by (rule conjunct1)
  then have "t_size (newTarget Speed initialSettings 800 600 ?d) = 35"
    by (simp add: initialSettings_def)
  with h1 h2 show ?thesis by simp
qed

text \<open>Claim C7 as stated bounds the speed by 100: a Speed target spawned with the speed
  draw 3/4 and heading draw 0 moves at 125 px/s.\<close>

theorem speed_range_counterexample:
  "velocityMagnitude
     (newTarget Speed initialSettings 800 600
        \<lparr>nowId = 0, randId = 0, randX = 0, randY = 0, nowCreated = 0,
         randA = 3/4, randB = 0\<rparr>) = 125
   \<and> \<not> velocityMagnitude
     (newTarget Speed initialSettings 800 600
        \<lparr>nowId = 0, randId = 0, randX = 0, randY = 0, nowCreated = 0,
         randA = 3/4, randB = 0\<rparr>) < 100"
  by (simp add: newTarget_def velocityMagnitude_def Let_def initialSettings_def)

section \<open>Shrinking targets\<close>

lemma animateTarget_shrink_size:
  "t_shrinking t = Some True \<Longrightarrow>
   t_size (animateTarget mode s width height now t) =
     (targetSize s + 20)
       * max 0.3 (1 - ((now - t_createdAt t) / getTargetLifetime mode s) * 0.7)"
  by (simp add: animateTarget_def Let_def split: option.splits)

lemma shrink_floor:
  fixes b x :: real
  assumes "0 \<le> b"
  shows "0.3 * b \<le> b * max 0.3 x"
proof -
  have "(0.3::real) \<le> max 0.3 x" by (rule max.cobounded1)
  from mult_left_mono [OF this assms] show ?thesis by (simp only: mult.commute)
qed

text \<open>
  Claim C8. A Precision target is spawned with diameter \<open>settings.targetSize + 20\<close> and lives
  for \<open>L = targetDuration + 1000\<close> ms. For every shrinking target, the size recomputed by the
  animation step at age \<open>a\<close> is \<open>(targetSize + 20) \<cdot> max(0.3, 1 - 0.7 \<cdot> a / L)\<close>: at age 0 it
  is \<open>targetSize + 20\<close>, at age \<open>L\<close> it is \<open>0.3 \<cdot> (targetSize + 20)\<close>, and it is never below 30%
  of the original diameter. (Settings are non-negative.)
\<close>

theorem shrinking_size:
  assumes "t_shrinking t = Some True" and "0 \<le> targetSize s" and "0 \<le> targetSpeed s"
  shows "t_size (newTarget Precision s width height d) = targetSize s + 20
       \<and> getTargetLifetime Precision s = targetSpeed s + 1000
       \<and> t_size (animateTarget Precision s width height now t) =
           (targetSize s + 20)
             * max 0.3 (1 - 0.7 * (now - t_createdAt t) / (targetSpeed s + 1000))
       \<and> (now = t_createdAt t \<longrightarrow>
            t_size (animateTarget Precision s width height now t) = targetSize s + 20)
       \<and> (now = t_createdAt t + (targetSpeed s + 1000) \<longrightarrow>
            t_size (animateTarget Precision s width height now t) = 0.3 * (targetSize s + 20))
       \<and> 0.3 * (targetSize s + 20) \<le> t_size (animateTarget Precision s width height now t)"
proof -
  have "t_size (animateTarget Precision s width height now t) =
           (targetSize s + 20)
             * max 0.3 (1 - ((now - t_createdAt t) / (targetSpeed s + 1000)) * 0.7)" for now
    using assms(1) by (simp add: animateTarget_shrink_size)
  moreover have "((now - t_createdAt t) / (targetSpeed s + 1000)) * 0.7
      = 0.7 * (now - t_createdAt t) / (targetSpeed s + 1000)" for now
    by (simp only: times_divide_eq_right mult.commute)
  ultimately have sz: "t_size (animateTarget Precision s width height now t) =
           (targetSize s + 20)
             * max 0.3 (1 - 0.7 * (now - t_createdAt t) / (targetSpeed s + 1000))" for now
    by (simp only:)
  have L: "targetSpeed s + 1000 \<noteq> 0" using assms(3) by simp
  have b: "0 \<le> targetSize s + 20" using assms(2) by simp
  show ?thesis
  proof (intro conjI impI)
    show "t_size (newTarget Precision s width height d) = targetSize s + 20"
      by (simp add: newTarget_def Let_def)
    show "getTargetLifetime Precision s = targetSpeed s + 1000" by simp
    show "t_size (animateTarget Precision s width height now t) =
           (targetSize s + 20)
             * max 0.3 (1 - 0.7 * (now - t_createdAt t) / (targetSpeed s + 1000))"
      by (rule sz)
    show "t_size (animateTarget Precision s width height now t) = targetSize s + 20"
      if "now = t_createdAt t"
      unfolding sz using that by simp
    show "t_size (animateTarget Precision s width height now t) = 0.3 * (targetSize s + 20)"
      if "now = t_createdAt t + (targetSpeed s + 1000)"
    proof -
      have a: "now - t_createdAt t = targetSpeed s + 1000" using that by simp
      have c: "0.7 * (targetSpeed s + 1000) / (targetSpeed s + 1000) = 0.7"
        by (rule nonzero_mult_div_cancel_right [OF L])
      show ?thesis unfolding sz a c by simp
    qed
    show "0.3 * (targetSize s + 20) \<le> t_size (animateTarget Precision s width height now t)"
      unfolding sz by (rule shrink_floor [OF b])
  qed
qed

theorem shrinking_size_witness:
  "t_shrinking (newTarget Precision initialSettings 800 600
        \<lparr>nowId = 0, randId = 0, randX = 0, randY = 0, nowCreated = 0,
         randA = 0, randB = 0\<rparr>) = Some True
   \<and> 0 \<le> targetSize initialSettings \<and> 0 \<le> targetSpeed initialSettings
   \<and> t_size (animateTarget Precision initialSettings 800 600 3000
        (newTarget Precision initialSettings 800 600
           \<lparr>nowId = 0, randId = 0, randX = 0, randY = 0, nowCreated = 0,
            randA = 0, randB = 0\<rparr>)) = 21"
proof -
  let ?t = "newTarget Precision initialSettings 800 600
        \<lparr>nowId = 0, randId = 0, randX = 0, randY = 0, nowCreated = 0,
         randA = 0, randB = 0\<rparr>"
  have h1: "t_shrinking ?t = Some True" by (simp add: newTarget_def Let_def)
  have h2: "0 \<le> targetSize initialSettings" and h3: "0 \<le> targetSpeed initialSettings"
    by (simp_all add: initialSettings_def)
  have c: "t_createdAt ?t = 0" by (simp add: newTarget_def Let_def)
  from shrinking_size [OF h1 h2 h3, of 800 600 _ 3000]
  have "3000 = t_createdAt ?t + (targetSpeed initialSettings + 1000) \<longrightarrow>
        t_size (animateTarget Precision initialSettings 800 600 3000 ?t)
          = 0.3 * (targetSize initialSettings + 20)"
    by blast
  then have "t_size (animateTarget Precision initialSettings 800 600 3000 ?t) = 21"
    unfolding c by (simp add: initialSettings_def)
  with h1 h2 h3 show ?thesis by simp
qed

section \<open>Clicks\<close>

lemma hitFilter_kept:
  "fst (hitFilter s mode cx cy now rnd ts (effs, st, flag)) = filter (\<lambda>t. \<not> landsOn cx cy t) ts"
  by (induction ts arbitrary: effs st flag) (simp_all add: landsOn_def split_beta Let_def)

lemma hitFilter_flag:
  "snd (snd (snd (hitFilter s mode cx cy now rnd ts (effs, st, flag)))) =
     (flag \<or> filter (landsOn cx cy) ts \<noteq> [])"
  by (induction ts arbitrary: effs st flag) (simp_all add: landsOn_def split_beta Let_def)

lemma hitFilter_effects:
  "length (fst (snd (hitFilter s mode cx cy now rnd ts (effs, st, flag)))) =
     length effs + length (filter (landsOn cx cy) ts)"
  by (induction ts arbitrary: effs st flag) (simp_all add: landsOn_def split_beta Let_def)

lemma hitFilter_stats:
  "targetsHit (fst (snd (snd (hitFilter s mode cx cy now rnd ts (effs, st, flag))))) =
     targetsHit st + int (length (filter (landsOn cx cy) ts))"
  "totalShots (fst (snd (snd (hitFilter s mode cx cy now rnd ts (effs, st, flag))))) =
     totalShots st + int (length (filter (landsOn cx cy) ts))"
  "targetsMissed (fst (snd (snd (hitFilter s mode cx cy now rnd ts (effs, st, flag))))) =
     targetsMissed st"
  "averageMissDistance (fst (snd (snd (hitFilter s mode cx cy now rnd ts (effs, st, flag))))) =
     averageMissDistance st"
  by (induction ts arbitrary: effs st flag;
      simp add: landsOn_def split_beta Let_def recordHit_fields)+

lemma hitFilter_score:
  "score (fst (snd (snd (hitFilter s mode cx cy now rnd ts (effs, st, flag))))) =
     score st
     + sum_list (map (\<lambda>t. snd (snd (hitOutcome s mode cx cy now t)))
                   (filter (landsOn cx cy) ts))"
  by (induction ts arbitrary: effs st flag)
     (simp_all add: landsOn_def split_beta Let_def recordHit_fields)

lemma hitFilter_effect_scores:
  "map h_score (fst (snd (hitFilter s mode cx cy now rnd ts (effs, st, flag)))) =
     map h_score effs
     @ map (\<lambda>t. snd (snd (hitOutcome s mode cx cy now t))) (filter (landsOn cx cy) ts)"
  by (induction ts arbitrary: effs st flag) (simp_all add: landsOn_def split_beta Let_def)

lemma closestLoop_sound:
  "m = clickDistance cx cy c \<Longrightarrow>
   snd (closestLoop cx cy ts (c, m)) = clickDistance cx cy (fst (closestLoop cx cy ts (c, m)))
   \<and> fst (closestLoop cx cy ts (c, m)) \<in> insert c (set ts)
   \<and> snd (closestLoop cx cy ts (c, m)) \<le> m
   \<and> (\<forall>t \<in> set ts. snd (closestLoop cx cy ts (c, m)) \<le> clickDistance cx cy t)"
proof (induction ts arbitrary: c m)
  case Nil
  then show ?case by simp
next
  case (Cons t ts)
  show ?case
  proof (cases "clickDistance cx cy t < m")
    case True
    from Cons.IH [of "clickDistance cx cy t" t] True show ?thesis
      by (auto simp: Let_def)
  next
    case False
    from Cons.IH [OF Cons.prems] False show ?thesis
      by (auto simp: Let_def)
  qed
qed


lemma getDirectionText_zero: "getDirectionText 0 = ''right''"
  by (simp add: getDirectionText_def jsRem_def)

lemma analyzeShot_nearest:
  assumes "ts \<noteq> []"
  shows "(\<exists>c \<in> set ts. distance (analyzeShot cx cy ts) = clickDistance cx cy c
            \<and> (direction (analyzeShot cx cy ts) = Hit \<longleftrightarrow> landsOn cx cy c))
       \<and> (\<forall>t \<in> set ts. distance (analyzeShot cx cy ts) \<le> clickDistance cx cy t)"
proof -
  from assms obtain t0 tl where ts: "ts = t0 # tl" by (cases ts) auto
  let ?r = "closestLoop cx cy (t0 # tl) (t0, clickDistance cx cy t0)"
  from closestLoop_sound [of "clickDistance cx cy t0" cx cy t0 "t0 # tl"]
  have a: "snd ?r = clickDistance cx cy (fst ?r)" and b: "fst ?r \<in> set (t0 # tl)"
    and c: "\<forall>t \<in> set (t0 # tl). snd ?r \<le> clickDistance cx cy t"
    by auto
  have d: "distance (analyzeShot cx cy ts) = snd ?r"
    by (simp add: ts split_beta Let_def)
  have e: "direction (analyzeShot cx cy ts) = Hit \<longleftrightarrow> snd ?r \<le> t_size (fst ?r) / 2"
    by (simp add: ts split_beta Let_def)
  show ?thesis
    unfolding d e using a b c unfolding ts landsOn_def by metis
qed

text \<open>What one accepted click does to the counters and to the running mean.\<close>

lemma click_stats:
  assumes "isPlaying g"
  shows "targetsHit (gameStats (handleCanvasClick cx cy now rnd g)) =
           targetsHit (gameStats g) + int (length (filter (landsOn cx cy) (targets g)))"
    and "totalShots (gameStats (handleCanvasClick cx cy now rnd g)) =
           totalShots (gameStats g) + 1 + int (length (filter (landsOn cx cy) (targets g)))"
    and "targetsMissed (gameStats (handleCanvasClick cx cy now rnd g)) =
           targetsMissed (gameStats g) + (if gameMode g = Precision then 2 else 1)"
    and "averageMissDistance (gameStats (handleCanvasClick cx cy now rnd g)) =
           (averageMissDistance (gameStats g) * of_int (targetsMissed (gameStats g))
              + distance (analyzeShot cx cy (targets g)))
           / of_int (targetsMissed (gameStats g) + 1)"
  using assms
  by (simp_all add: handleCanvasClick_def Let_def split_beta hitFilter_stats recordMiss_fields)

lemma missRecorded_iff: "missRecorded cx cy now rnd g = isPlaying g"
  by (simp add: missRecorded_def handleCanvasClick_def Let_def split_beta)

text \<open>
  Claim C1, as the code has it. For every click taken while the live-target collection is
  empty, the shot analysis returns the degenerate result (distance 0, bearing 0,
  classified as hit), and the click is recorded as a miss: \<open>totalShots\<close> grows by 1,
  \<open>targetsMissed\<close> by the penalty of the mode (2 in Precision, 1 otherwise), and one miss
  effect of distance 0 and direction "right" is created. The score, \<open>targetsHit\<close>, \<open>overshoots\<close> and
  \<open>undershoots\<close> do not change, and no hit effect is created.
\<close>

theorem empty_click_counted_as_miss:
  assumes "isPlaying g" and "targets g = []"
  shows "analyzeShot cx cy (targets g) = \<lparr>distance = 0, direction = Hit, angle = 0\<rparr>
       \<and> totalShots (gameStats (handleCanvasClick cx cy now rnd g))
           = totalShots (gameStats g) + 1
       \<and> targetsMissed (gameStats (handleCanvasClick cx cy now rnd g))
           = targetsMissed (gameStats g) + (if gameMode g = Precision then 2 else 1)
       \<and> missEffects (handleCanvasClick cx cy now rnd g)
           = missEffects g @ [\<lparr>m_id = now + rnd, m_x = cx, m_y = cy, m_createdAt = now,
                                m_distance = 0, m_direction = ''right''\<rparr>]
       \<and> score (gameStats (handleCanvasClick cx cy now rnd g)) = score (gameStats g)
       \<and> targetsHit (gameStats (handleCanvasClick cx cy now rnd g)) = targetsHit (gameStats g)
       \<and> overshoots (gameStats (handleCanvasClick cx cy now rnd g)) = overshoots (gameStats g)
       \<and> undershoots (gameStats (handleCanvasClick cx cy now rnd g))
           = undershoots (gameStats g)
       \<and> hitEffects (handleCanvasClick cx cy now rnd g) = hitEffects g
       \<and> targets (handleCanvasClick cx cy now rnd g) = []"
  using assms
  by (simp add: handleCanvasClick_def recordMiss_def Let_def getDirectionText_zero)

theorem empty_click_counted_as_miss_witness:
  "isPlaying (expireTarget 0 (startGame 0
       \<lparr>nowId = 0, randId = 0, randX = 0, randY = 0, nowCreated = 0,
        randA = 1/2, randB = 0\<rparr> initialGame))
   \<and> targets (expireTarget 0 (startGame 0
       \<lparr>nowId = 0, randId = 0, randX = 0, randY = 0, nowCreated = 0,
        randA = 1/2, randB = 0\<rparr> initialGame)) = []
   \<and> missEffects (handleCanvasClick 10 10 5000 0 (expireTarget 0 (startGame 0
       \<lparr>nowId = 0, randId = 0, randX = 0, randY = 0, nowCreated = 0,
        randA = 1/2, randB = 0\<rparr> initialGame)))
       = [\<lparr>m_id = 5000, m_x = 10, m_y = 10, m_createdAt = 5000,
           m_distance = 0, m_direction = ''right''\<rparr>]"
proof -
  let ?g = "expireTarget 0 (startGame 0
       \<lparr>nowId = 0, randId = 0, randX = 0, randY = 0, nowCreated = 0,
        randA = 1/2, randB = 0\<rparr> initialGame)"
  have h1: "isPlaying ?g" and h2: "targets ?g = []" and m: "missEffects ?g = []"
    by (simp_all add: session_defs)
  from empty_click_counted_as_miss [OF h1 h2, of 10 10 5000 0]
  have "missEffects (handleCanvasClick 10 10 5000 0 ?g)
           = missEffects ?g @ [\<lparr>m_id = 5000 + 0, m_x = 10, m_y = 10, m_createdAt = 5000,
                                 m_distance = 0, m_direction = ''right''\<rparr>]"
    by blast
  then have "missEffects (handleCanvasClick 10 10 5000 0 ?g)
       = [\<lparr>m_id = 5000, m_x = 10, m_y = 10, m_createdAt = 5000,
           m_distance = 0, m_direction = ''right''\<rparr>]"
    by (simp add: m)
  with h1 h2 show ?thesis by simp
qed

text \<open>Claim C1 as stated makes the click a no-op. In the session that starts and lets its
  first target expire, a click on the empty playfield raises \<open>totalShots\<close> from 0 to 1 and
  \<open>targetsMissed\<close> from 1 to 2, and creates a miss effect.\<close>

theorem empty_click_counterexample:
  "isPlaying (expireTarget 0 (startGame 0
       \<lparr>nowId = 0, randId = 0, randX = 0, randY = 0, nowCreated = 0,
        randA = 1/2, randB = 0\<rparr> initialGame))
   \<and> targets (expireTarget 0 (startGame 0
       \<lparr>nowId = 0, randId = 0, randX = 0, randY = 0, nowCreated = 0,
        randA = 1/2, randB = 0\<rparr> initialGame)) = []
   \<and> totalShots (gameStats (expireTarget 0 (startGame 0
       \<lparr>nowId = 0, randId = 0, randX = 0, randY = 0, nowCreated = 0,
        randA = 1/2, randB = 0\<rparr> initialGame))) = 0
   \<and> totalShots (gameStats (handleCanvasClick 10 10 5000 0 (expireTarget 0 (startGame 0
       \<lparr>nowId = 0, randId = 0, randX = 0, randY = 0, nowCreated = 0,
        randA = 1/2, randB = 0\<rparr> initialGame)))) = 1
   \<and> targetsMissed (gameStats (expireTarget 0 (startGame 0
       \<lparr>nowId = 0, randId = 0, randX = 0, randY = 0, nowCreated = 0,
        randA = 1/2, randB = 0\<rparr> initialGame))) = 1
   \<and> targetsMissed (gameStats (handleCanvasClick 10 10 5000 0 (expireTarget 0 (startGame 0
       \<lparr>nowId = 0, randId = 0, randX = 0, randY = 0, nowCreated = 0,
        randA = 1/2, randB = 0\<rparr> initialGame)))) = 2
   \<and> length (missEffects (handleCanvasClick 10 10 5000 0 (expireTarget 0 (startGame 0
       \<lparr>nowId = 0, randId = 0, randX = 0, randY = 0, nowCreated = 0,
        randA = 1/2, randB = 0\<rparr> initialGame)))) = 1"
  by (simp add: session_defs)

text \<open>
  Claim C4, as the code has it. A click taken by a running session removes every live
  target it lands on (distance to the centre at most the radius) and only those, and
  awards each of them its score, which is added to the session score and shown in a hit
  effect of its own: possibly several targets, and not necessarily the nearest. The shot
  analysis reports the distance to the Euclidean-nearest target and classifies the click
  as a hit exactly when it lands on that target; when it does, the click removes a target.
\<close>

theorem click_hits_every_covering_target:
  assumes "isPlaying g"
  shows "targets (handleCanvasClick cx cy now rnd g) =
           filter (\<lambda>t. \<not> landsOn cx cy t) (targets g)
       \<and> targetsHit (gameStats (handleCanvasClick cx cy now rnd g)) =
           targetsHit (gameStats g) + int (length (filter (landsOn cx cy) (targets g)))
       \<and> score (gameStats (handleCanvasClick cx cy now rnd g)) =
           score (gameStats g)
           + sum_list (map (\<lambda>t. snd (snd (hitOutcome (settings g) (gameMode g) cx cy now t)))
                         (filter (landsOn cx cy) (targets g)))
       \<and> map h_score (hitEffects (handleCanvasClick cx cy now rnd g)) =
           map h_score (hitEffects g)
           @ map (\<lambda>t. snd (snd (hitOutcome (settings g) (gameMode g) cx cy now t)))
               (filter (landsOn cx cy) (targets g))
       \<and> (targets g \<noteq> [] \<longrightarrow>
            (\<exists>c \<in> set (targets g).
               distance (analyzeShot cx cy (targets g)) = clickDistance cx cy c
               \<and> (\<forall>t \<in> set (targets g). clickDistance cx cy c \<le> clickDistance cx cy t)
               \<and> (direction (analyzeShot cx cy (targets g)) = Hit \<longleftrightarrow> landsOn cx cy c)))
       \<and> (targets g \<noteq> [] \<and> direction (analyzeShot cx cy (targets g)) = Hit \<longrightarrow>
            filter (landsOn cx cy) (targets g) \<noteq> [])"
proof -
  let ?g' = "handleCanvasClick cx cy now rnd g"
  let ?hit = "filter (landsOn cx cy) (targets g)"
  have 1: "targets ?g' = filter (\<lambda>t. \<not> landsOn cx cy t) (targets g)"
    using assms by (simp add: handleCanvasClick_def Let_def split_beta hitFilter_kept)
  have 2: "targetsHit (gameStats ?g') = targetsHit (gameStats g) + int (length ?hit)"
    by (rule click_stats [OF assms])
  have 3: "score (gameStats ?g') =
             score (gameStats g) + sum_list (map (\<lambda>t. snd (snd (hitOutcome (settings g) (gameMode g) cx cy now t))) ?hit)"
    using assms
    by (simp add: handleCanvasClick_def Let_def split_beta hitFilter_score recordMiss_fields)
  have 4: "map h_score (hitEffects ?g') =
             map h_score (hitEffects g) @ map (\<lambda>t. snd (snd (hitOutcome (settings g) (gameMode g) cx cy now t))) ?hit"
    using assms
    by (simp add: handleCanvasClick_def Let_def split_beta hitFilter_effect_scores)
  have 5: "\<exists>c \<in> set (targets g).
               distance (analyzeShot cx cy (targets g)) = clickDistance cx cy c
               \<and> (\<forall>t \<in> set (targets g). clickDistance cx cy c \<le> clickDistance cx cy t)
               \<and> (direction (analyzeShot cx cy (targets g)) = Hit \<longleftrightarrow> landsOn cx cy c)"
    if ne: "targets g \<noteq> []"
  proof -
    from analyzeShot_nearest [OF ne, of cx cy]
    obtain c where c: "c \<in> set (targets g)"
      and d: "distance (analyzeShot cx cy (targets g)) = clickDistance cx cy c"
      and h: "direction (analyzeShot cx cy (targets g)) = Hit \<longleftrightarrow> landsOn cx cy c"
      and m: "\<forall>t \<in> set (targets g). distance (analyzeShot cx cy (targets g)) \<le> clickDistance cx cy t"
      by blast
    from m have "\<forall>t \<in> set (targets g). clickDistance cx cy c \<le> clickDistance cx cy t"
      unfolding d .
    with c d h show ?thesis by blast
  qed
  have 6: "?hit \<noteq> []"
    if "targets g \<noteq> []" and "direction (analyzeShot cx cy (targets g)) = Hit"
  proof -
    from 5 [OF that(1)] that(2)
    obtain c where "c \<in> set (targets g)" and "landsOn cx cy c" by blast
    then show ?thesis by (auto simp: filter_empty_conv)
  qed
  from 1 2 3 4 5 6 show ?thesis by blast
qed

theorem click_hits_every_covering_target_witness:
  "isPlaying (startGame 0
       \<lparr>nowId = 0, randId = 0, randX = 0, randY = 0, nowCreated = 0,
        randA = 1/2, randB = 0\<rparr> initialGame)
   \<and> targets (handleCanvasClick 50 50 100 0 (startGame 0
       \<lparr>nowId = 0, randId = 0, randX = 0, randY = 0, nowCreated = 0,
        randA = 1/2, randB = 0\<rparr> initialGame)) = []"
proof -
  let ?g = "startGame 0
       \<lparr>nowId = 0, randId = 0, randX = 0, randY = 0, nowCreated = 0,
        randA = 1/2, randB = 0\<rparr> initialGame"
  have h: "isPlaying ?g" by (simp add: session_defs)
  from click_hits_every_covering_target [OF h, of 50 50 100 0]
  have "targets (handleCanvasClick 50 50 100 0 ?g) =
          filter (\<lambda>t. \<not> landsOn 50 50 t) (targets ?g)"
    by (rule conjunct1)
  then have "targets (handleCanvasClick 50 50 100 0 ?g) = []"
    by (simp add: session_defs landsOn_def clickDistance_horizontal)
  with h show ?thesis by simp
qed

text \<open>Claim C4 as stated lets a click remove and score at most one target, and makes it a
  hit exactly when it lands on the nearest one. In the Classic session whose second target
  spawns on top of the first, one click on their common centre removes both and counts two
  hits. In the Classic session with targets of diameter 46 at (100,100) and 54 at
  (150,100), the click at (124,100) is nearest to the first target and outside it (the
  analysis reports an undershoot), yet it lands on the second, which is removed and
  scored.\<close>

theorem multi_hit_counterexample:
  "length (targets (spawnTick
       \<lparr>nowId = 1, randId = 0, randX = 0, randY = 0, nowCreated = 1,
        randA = 1/2, randB = 0\<rparr>
       (startGame 0
       \<lparr>nowId = 0, randId = 0, randX = 0, randY = 0, nowCreated = 0,
        randA = 1/2, randB = 0\<rparr> initialGame))) = 2
   \<and> targets (handleCanvasClick 50 50 100 0 (spawnTick
       \<lparr>nowId = 1, randId = 0, randX = 0, randY = 0, nowCreated = 1,
        randA = 1/2, randB = 0\<rparr>
       (startGame 0
       \<lparr>nowId = 0, randId = 0, randX = 0, randY = 0, nowCreated = 0,
        randA = 1/2, randB = 0\<rparr> initialGame))) = []
   \<and> targetsHit (gameStats (handleCanvasClick 50 50 100 0 (spawnTick
       \<lparr>nowId = 1, randId = 0, randX = 0, randY = 0, nowCreated = 1,
        randA = 1/2, randB = 0\<rparr>
       (startGame 0
       \<lparr>nowId = 0, randId = 0, randX = 0, randY = 0, nowCreated = 0,
        randA = 1/2, randB = 0\<rparr> initialGame)))) = 2
   \<and> map t_x (targets (spawnTick
       \<lparr>nowId = 1, randId = 0, randX = 1/7, randY = 1/10, nowCreated = 1,
        randA = 9/10, randB = 0\<rparr>
       (startGame 0
       \<lparr>nowId = 0, randId = 0, randX = 1/14, randY = 1/10, nowCreated = 0,
        randA = 1/10, randB = 0\<rparr> initialGame))) = [100, 150]
   \<and> map t_size (targets (spawnTick
       \<lparr>nowId = 1, randId = 0, randX = 1/7, randY = 1/10, nowCreated = 1,
        randA = 9/10, randB = 0\<rparr>
       (startGame 0
       \<lparr>nowId = 0, randId = 0, randX = 1/14, randY = 1/10, nowCreated = 0,
        randA = 1/10, randB = 0\<rparr> initialGame))) = [46, 54]
   \<and> direction (analyzeShot 124 100 (targets (spawnTick
       \<lparr>nowId = 1, randId = 0, randX = 1/7, randY = 1/10, nowCreated = 1,
        randA = 9/10, randB = 0\<rparr>
       (startGame 0
       \<lparr>nowId = 0, randId = 0, randX = 1/14, randY = 1/10, nowCreated = 0,
        randA = 1/10, randB = 0\<rparr> initialGame)))) = Undershoot
   \<and> map t_x (targets (handleCanvasClick 124 100 100 0 (spawnTick
       \<lparr>nowId = 1, randId = 0, randX = 1/7, randY = 1/10, nowCreated = 1,
        randA = 9/10, randB = 0\<rparr>
       (startGame 0
       \<lparr>nowId = 0, randId = 0, randX = 1/14, randY = 1/10, nowCreated = 0,
        randA = 1/10, randB = 0\<rparr> initialGame)))) = [100]
   \<and> targetsHit (gameStats (handleCanvasClick 124 100 100 0 (spawnTick
       \<lparr>nowId = 1, randId = 0, randX = 1/7, randY = 1/10, nowCreated = 1,
        randA = 9/10, randB = 0\<rparr>
       (startGame 0
       \<lparr>nowId = 0, randId = 0, randX = 1/14, randY = 1/10, nowCreated = 0,
        randA = 1/10, randB = 0\<rparr> initialGame)))) = 1"
  by (simp add: session_defs clickDistance_horizontal recordHit_fields split_beta)

section \<open>Session end and persistence\<close>

lemma endGame_state:
  "fst (endGame save cl g) =
     g\<lparr>isPlaying := False, targets := [],
       toasts := toasts g @
         [case save (sessionSummary cl) of
            Inl _ \<Rightarrow> ToastError ''Failed to save game session''
          | Inr _ \<Rightarrow> ToastSuccess (score (c_gameStats cl)) (accuracy (c_gameStats cl))
                      (if targetsHit (c_gameStats cl) > 0
                       then of_int (centerHits (c_gameStats cl))
                              / of_int (targetsHit (c_gameStats cl)) * 100
                       else 0)]\<rparr>"
  by (simp add: endGame_def Let_def split: sum.splits)

lemma endGame_result: "snd (endGame save cl g) = save (sessionSummary cl)"
  by (simp add: endGame_def Let_def split: sum.splits)

lemma endGame_fields:
  "gameStats (fst (endGame save cl g)) = gameStats g"
  "gameMode (fst (endGame save cl g)) = gameMode g"
  "settings (fst (endGame save cl g)) = settings g"
  "countdownClosure (fst (endGame save cl g)) = countdownClosure g"
  by (simp_all add: endGame_state)

lemma saveSession_accepts:
  "auth c = Some u \<Longrightarrow> u \<noteq> [] \<Longrightarrow>
   saveSession c args = Inr (length (db c), db c @ [\<lparr>r_userId = u, r_args = args\<rparr>])"
  by (simp add: saveSession_def falsyId_def)

text \<open>No event of a session changes the mode, the settings or the closure of the
  countdown.\<close>

lemma step_fixed:
  "gameMode (step save e g) = gameMode g"
  "settings (step save e g) = settings g"
  "countdownClosure (step save e g) = countdownClosure g"
  by (cases e;
      simp add: handleCanvasClick_def expireTarget_def spawnTick_def spawnTarget_def
        animationTick_def cleanupTick_def countdownTick_def endGame_fields split_beta Let_def)+

lemma run_fixed:
  "gameMode (run save es g) = gameMode g"
  "settings (run save es g) = settings g"
  "countdownClosure (run save es g) = countdownClosure g"
  by (induction es arbitrary: g; simp add: step_fixed)+

lemma startGame_fields:
  "targetsHit (gameStats (startGame now d g)) = 0"
  "targetsMissed (gameStats (startGame now d g)) = 0"
  "totalShots (gameStats (startGame now d g)) = 0"
  "averageMissDistance (gameStats (startGame now d g)) = 0"
  "gameMode (startGame now d g) = gameMode g"
  "settings (startGame now d g) = settings g"
  "c_settings (countdownClosure (startGame now d g)) = settings g"
  "targetsHit (c_gameStats (countdownClosure (startGame now d g))) = 0"
  "targetsMissed (c_gameStats (countdownClosure (startGame now d g))) = 0"
  "score (c_gameStats (countdownClosure (startGame now d g))) = 0"
  by (simp_all add: startGame_def spawnTarget_def currentRender_def Let_def)

lemma run_append: "run save (es @ fs) g = run save fs (run save es g)"
  by (induction es arbitrary: g) simp_all

lemma run_countdown:
  "isPlaying g \<Longrightarrow> real n < timeLeft g \<Longrightarrow>
   run save (replicate n CountdownTick) g = g\<lparr>timeLeft := timeLeft g - real n\<rparr>"
proof (induction n arbitrary: g)
  case 0
  then show ?case by simp
next
  case (Suc n)
  have a: "step save CountdownTick g = g\<lparr>timeLeft := timeLeft g - 1\<rparr>"
    using Suc.prems by (simp add: countdownTick_def)
  have b: "run save (replicate n CountdownTick) (g\<lparr>timeLeft := timeLeft g - 1\<rparr>) =
          (g\<lparr>timeLeft := timeLeft g - 1\<rparr>)\<lparr>timeLeft := timeLeft (g\<lparr>timeLeft := timeLeft g - 1\<rparr>) - real n\<rparr>"
    by (rule Suc.IH) (use Suc.prems in simp_all)
  show ?case
    unfolding replicate_Suc run.simps a b by (simp add: diff_diff_eq)
qed

text \<open>
  Claim C9. The persistence write \<open>saveSession\<close> rejects the record exactly when the caller
  has no authenticated identity: the handler throws exactly when the id it gets is falsy
  (\<open>null\<close> or the empty string), and the id of an authenticated caller is a non-empty
  string. When the write fails, for any reason, \<open>endGame\<close> leaves the session ended (not
  playing) and the statistics in memory as they were, whether it was called by the stop
  button or by the countdown: the new state is the old one with play stopped, the targets
  cleared and one error notification added.
\<close>

theorem save_failure_keeps_state:
  "(isl (saveSession c args) \<longleftrightarrow> auth c = None \<or> auth c = Some [])
   \<and> (auth c \<noteq> Some [] \<longrightarrow> (isl (saveSession c args) \<longleftrightarrow> auth c = None))
   \<and> (isl (save (sessionSummary cl)) \<longrightarrow>
        fst (endGame save cl g) =
          g\<lparr>isPlaying := False, targets := [],
            toasts := toasts g @ [ToastError ''Failed to save game session'']\<rparr>
        \<and> \<not> isPlaying (fst (endGame save cl g))
        \<and> gameStats (fst (endGame save cl g)) = gameStats g)
   \<and> (isl (save (sessionSummary (currentRender g))) \<longrightarrow>
        fst (stopGame save g) =
          g\<lparr>isPlaying := False, targets := [],
            toasts := toasts g @ [ToastError ''Failed to save game session'']\<rparr>)
   \<and> (isPlaying g \<and> timeLeft g \<le> 1 \<and> isl (save (sessionSummary (countdownClosure g))) \<longrightarrow>
        fst (countdownTick save g) =
          g\<lparr>isPlaying := False, targets := [],
            toasts := toasts g @ [ToastError ''Failed to save game session''],
            timeLeft := 0\<rparr>)"
proof -
  have id: "isl (saveSession c args) \<longleftrightarrow> auth c = None \<or> auth c = Some []"
    by (simp add: saveSession_def falsyId_def Let_def split: option.splits)
  have st: "fst (endGame save cl g) =
          g\<lparr>isPlaying := False, targets := [],
            toasts := toasts g @ [ToastError ''Failed to save game session'']\<rparr>"
    if "isl (save (sessionSummary cl))" for cl
  proof -
    from that obtain e where "save (sessionSummary cl) = Inl e"
      by (cases "save (sessionSummary cl)") auto
    then show ?thesis by (simp add: endGame_state)
  qed
  have cd: "fst (countdownTick save g) =
          g\<lparr>isPlaying := False, targets := [],
            toasts := toasts g @ [ToastError ''Failed to save game session''],
            timeLeft := 0\<rparr>"
    if "isPlaying g \<and> timeLeft g \<le> 1 \<and> isl (save (sessionSummary (countdownClosure g)))"
    using that st [of "countdownClosure g"] by (simp add: countdownTick_def split_beta)
  show ?thesis
  proof (intro conjI impI)
    show "isl (saveSession c args) \<longleftrightarrow> auth c = None \<or> auth c = Some []" by (rule id)
    show "isl (saveSession c args) \<longleftrightarrow> auth c = None" if "auth c \<noteq> Some []"
      using id that by simp
    show "fst (endGame save cl g) =
          g\<lparr>isPlaying := False, targets := [],
            toasts := toasts g @ [ToastError ''Failed to save game session'']\<rparr>"
      if "isl (save (sessionSummary cl))" using that by (rule st)
    show "\<not> isPlaying (fst (endGame save cl g))" by (simp add: endGame_state)
    show "gameStats (fst (endGame save cl g)) = gameStats g" by (simp add: endGame_fields)
    show "fst (stopGame save g) =
          g\<lparr>isPlaying := False, targets := [],
            toasts := toasts g @ [ToastError ''Failed to save game session'']\<rparr>"
      if "isl (save (sessionSummary (currentRender g)))"
      unfolding stopGame_def using that by (rule st)
    show "fst (countdownTick save g) =
          g\<lparr>isPlaying := False, targets := [],
            toasts := toasts g @ [ToastError ''Failed to save game session''],
            timeLeft := 0\<rparr>"
      if "isPlaying g \<and> timeLeft g \<le> 1 \<and> isl (save (sessionSummary (countdownClosure g)))"
      using that by (rule cd)
  qed
qed

theorem save_failure_keeps_state_witness:
  "auth \<lparr>auth = None, db = []\<rparr> \<noteq> Some []
   \<and> isl (saveSession \<lparr>auth = None, db = []\<rparr>
        (sessionSummary (currentRender (startGame 0
           \<lparr>nowId = 0, randId = 0, randX = 0, randY = 0, nowCreated = 0,
        randA = 1/2, randB = 0\<rparr> initialGame))))
   \<and> gameStats (fst (stopGame (saveSession \<lparr>auth = None, db = []\<rparr>) (startGame 0
           \<lparr>nowId = 0, randId = 0, randX = 0, randY = 0, nowCreated = 0,
        randA = 1/2, randB = 0\<rparr> initialGame)))
       = gameStats (startGame 0
           \<lparr>nowId = 0, randId = 0, randX = 0, randY = 0, nowCreated = 0,
        randA = 1/2, randB = 0\<rparr> initialGame)
   \<and> toasts (fst (stopGame (saveSession \<lparr>auth = None, db = []\<rparr>) (startGame 0
           \<lparr>nowId = 0, randId = 0, randX = 0, randY = 0, nowCreated = 0,
        randA = 1/2, randB = 0\<rparr> initialGame)))
       = [ToastError ''Failed to save game session'']"
proof -
  let ?c = "\<lparr>auth = None, db = []\<rparr>"
  let ?g = "startGame 0
           \<lparr>nowId = 0, randId = 0, randX = 0, randY = 0, nowCreated = 0,
        randA = 1/2, randB = 0\<rparr> initialGame"
  have a: "auth ?c \<noteq> Some []" by simp
  note t = save_failure_keeps_state
             [of ?c "sessionSummary (currentRender ?g)" "saveSession ?c" "currentRender ?g" ?g]
  from t a have h: "isl (saveSession ?c (sessionSummary (currentRender ?g)))" by simp
  from t h have "fst (stopGame (saveSession ?c) ?g) =
          ?g\<lparr>isPlaying := False, targets := [],
            toasts := toasts ?g @ [ToastError ''Failed to save game session'']\<rparr>"
    by blast
  moreover have "toasts ?g = []" by (simp add: session_defs)
  ultimately show ?thesis using a h by simp
qed

text \<open>
  Claim C10. For every session end, by the countdown reaching zero or by an early stop,
  the \<open>duration\<close> of the persisted summary is the configured \<open>settings.gameTime\<close>, whatever
  time has elapsed. The stop button persists the summary of the current render, the
  countdown the summary of the render that started the session; both carry the configured
  game time. (The caller is authenticated, so that a summary is persisted.)
\<close>

theorem persisted_duration:
  assumes "auth c = Some u" and "u \<noteq> []"
  shows "snd (stopGame (saveSession c) (run sv es (startGame now d g))) =
           Inr (length (db c),
                db c @ [\<lparr>r_userId = u,
                         r_args = sessionSummary
                                    (currentRender (run sv es (startGame now d g)))\<rparr>])
       \<and> a_duration (sessionSummary (currentRender (run sv es (startGame now d g))))
           = gameTime (settings g)
       \<and> (isPlaying (run sv es (startGame now d g))
            \<and> timeLeft (run sv es (startGame now d g)) \<le> 1 \<longrightarrow>
            snd (countdownTick (saveSession c) (run sv es (startGame now d g))) =
              Some (Inr (length (db c),
                         db c @ [\<lparr>r_userId = u,
                                  r_args = sessionSummary
                                    (countdownClosure (run sv es (startGame now d g)))\<rparr>])))
       \<and> a_duration (sessionSummary (countdownClosure (run sv es (startGame now d g))))
           = gameTime (settings g)
       \<and> settings (run sv es (startGame now d g)) = settings g"
proof -
  let ?G = "run sv es (startGame now d g)"
  have s: "settings ?G = settings g" by (simp add: run_fixed startGame_fields)
  have c: "c_settings (countdownClosure ?G) = settings g"
    by (simp add: run_fixed startGame_fields)
  have 1: "snd (stopGame (saveSession c) ?G) =
           Inr (length (db c),
                db c @ [\<lparr>r_userId = u, r_args = sessionSummary (currentRender ?G)\<rparr>])"
    by (simp add: stopGame_def endGame_result saveSession_accepts [OF assms])
  have 2: "a_duration (sessionSummary (currentRender ?G)) = gameTime (settings g)"
    by (simp add: sessionSummary_def currentRender_def Let_def s)
  have 3: "snd (countdownTick (saveSession c) ?G) =
              Some (Inr (length (db c),
                         db c @ [\<lparr>r_userId = u,
                                  r_args = sessionSummary (countdownClosure ?G)\<rparr>]))"
    if "isPlaying ?G \<and> timeLeft ?G \<le> 1"
    using that
    by (simp add: countdownTick_def split_beta endGame_result saveSession_accepts [OF assms])
  have 4: "a_duration (sessionSummary (countdownClosure ?G)) = gameTime (settings g)"
    by (simp add: sessionSummary_def Let_def c)
  from 1 2 3 4 s show ?thesis by blast
qed

theorem persisted_duration_witness:
  "auth \<lparr>auth = Some ''u1'', db = []\<rparr> = Some ''u1'' \<and> ''u1'' \<noteq> []
   \<and> isPlaying (run (saveSession \<lparr>auth = None, db = []\<rparr>) (Click 50 50 100 0 # replicate 29 CountdownTick)
        (startGame 0 \<lparr>nowId = 0, randId = 0, randX = 0, randY = 0, nowCreated = 0,
        randA = 1/2, randB = 0\<rparr> initialGame))
   \<and> timeLeft (run (saveSession \<lparr>auth = None, db = []\<rparr>) (Click 50 50 100 0 # replicate 29 CountdownTick)
        (startGame 0 \<lparr>nowId = 0, randId = 0, randX = 0, randY = 0, nowCreated = 0,
        randA = 1/2, randB = 0\<rparr> initialGame)) \<le> 1
   \<and> score (gameStats (run (saveSession \<lparr>auth = None, db = []\<rparr>) (Click 50 50 100 0 # replicate 29 CountdownTick)
        (startGame 0 \<lparr>nowId = 0, randId = 0, randX = 0, randY = 0, nowCreated = 0,
        randA = 1/2, randB = 0\<rparr> initialGame))) = 290
   \<and> (case snd (countdownTick (saveSession \<lparr>auth = Some ''u1'', db = []\<rparr>) (run (saveSession \<lparr>auth = None, db = []\<rparr>) (Click 50 50 100 0 # replicate 29 CountdownTick)
        (startGame 0 \<lparr>nowId = 0, randId = 0, randX = 0, randY = 0, nowCreated = 0,
        randA = 1/2, randB = 0\<rparr> initialGame))) of
         Some (Inr (n, rows)) \<Rightarrow>
           a_duration (r_args (last rows)) = 30 \<and> a_score (r_args (last rows)) = 0
       | _ \<Rightarrow> False)
   \<and> (case snd (stopGame (saveSession \<lparr>auth = Some ''u1'', db = []\<rparr>) (run (saveSession \<lparr>auth = None, db = []\<rparr>) (Click 50 50 100 0 # replicate 29 CountdownTick)
        (startGame 0 \<lparr>nowId = 0, randId = 0, randX = 0, randY = 0, nowCreated = 0,
        randA = 1/2, randB = 0\<rparr> initialGame))) of
         Inr (n, rows) \<Rightarrow>
           a_duration (r_args (last rows)) = 30 \<and> a_score (r_args (last rows)) = 290
       | _ \<Rightarrow> False)"
proof -
  let ?c = "\<lparr>auth = Some ''u1'', db = []\<rparr>"
  let ?sv = "(saveSession \<lparr>auth = None, db = []\<rparr>)"
  let ?g0 = "startGame 0 \<lparr>nowId = 0, randId = 0, randX = 0, randY = 0, nowCreated = 0,
        randA = 1/2, randB = 0\<rparr> initialGame"
  let ?g1 = "handleCanvasClick 50 50 100 0 ?g0"
  define G where "G = run ?sv (Click 50 50 100 0 # replicate 29 CountdownTick) ?g0"
  have h1: "auth ?c = Some ''u1''" and h2: "''u1'' \<noteq> []" by simp_all
  have p1: "isPlaying ?g1" and t1: "timeLeft ?g1 = 30" and s1: "score (gameStats ?g1) = 290"
    by (simp_all add: session_defs clickDistance_horizontal recordHit_fields split_beta
          hitOutcome_def getHitZone_def)
  have G: "G = ?g1\<lparr>timeLeft := timeLeft ?g1 - real 29\<rparr>"
    unfolding G_def run.simps step.simps by (rule run_countdown) (simp_all add: p1 t1)
  have p: "isPlaying G" and t: "timeLeft G \<le> 1" and s: "score (gameStats G) = 290"
    unfolding G by (simp_all add: p1 t1 s1)
  note pd = persisted_duration [OF h1 h2, of ?sv "(Click 50 50 100 0 # replicate 29 CountdownTick)" 0
               "\<lparr>nowId = 0, randId = 0, randX = 0, randY = 0, nowCreated = 0,
        randA = 1/2, randB = 0\<rparr>" initialGame, folded G_def]
  have gt: "gameTime (settings initialGame) = 30"
    by (simp add: initialGame_def initialSettings_def)
  from pd p t
  have cd: "snd (countdownTick (saveSession ?c) G) =
              Some (Inr (length (db ?c),
                         db ?c @ [\<lparr>r_userId = ''u1'',
                                   r_args = sessionSummary (countdownClosure G)\<rparr>]))"
    and cdd: "a_duration (sessionSummary (countdownClosure G)) = 30"
    and stp: "snd (stopGame (saveSession ?c) G) =
           Inr (length (db ?c),
                db ?c @ [\<lparr>r_userId = ''u1'', r_args = sessionSummary (currentRender G)\<rparr>])"
    and stpd: "a_duration (sessionSummary (currentRender G)) = 30"
    unfolding gt by blast+
  have cc: "countdownClosure G = countdownClosure ?g0" unfolding G_def by (rule run_fixed)
  have cds: "a_score (sessionSummary (countdownClosure G)) = 0"
    unfolding cc by (simp add: startGame_fields sessionSummary_def Let_def)
  have stps: "a_score (sessionSummary (currentRender G)) = 290"
    by (simp add: sessionSummary_def currentRender_def Let_def s)
  show ?thesis
    unfolding G_def [symmetric] cd stp using h1 h2 p t s cdd cds stpd stps by simp
qed

section \<open>Session counters\<close>










section \<open>Running mean of the miss distance\<close>

text \<open>The update of \<open>handleCanvasClick\<close> is the incremental mean with \<open>targetsMissed\<close> as the
  number of samples. As long as \<open>targetsMissed\<close> counts the clicks recorded as a miss, that
  is outside Precision mode and while no target has expired, the stored value is the
  arithmetic mean of the distances of those clicks.\<close>

lemma step_mean:
  assumes "gameMode g \<noteq> Precision" and "0 \<le> targetsMissed (gameStats g)"
    and "passiveExpiries save [e] g = 0"
  shows "targetsMissed (gameStats (step save e g)) =
           targetsMissed (gameStats g) + int (length (missDistances save [e] g))
       \<and> averageMissDistance (gameStats (step save e g))
             * of_int (targetsMissed (gameStats (step save e g))) =
           averageMissDistance (gameStats g) * of_int (targetsMissed (gameStats g))
             + sum_list (missDistances save [e] g)"
proof (cases e)
  case (Click cx cy now rnd)
  show ?thesis
  proof (cases "isPlaying g")
    case True
    have nz: "real_of_int (targetsMissed (gameStats g)) + 1 \<noteq> 0"
      using assms(2) by (simp add: add_nonneg_eq_0_iff)
    show ?thesis
      unfolding Click using assms(1) nz
      by (simp add: click_stats [OF True] missRecorded_iff True)
  next
    case False
    then show ?thesis unfolding Click by (simp add: handleCanvasClick_def missRecorded_iff)
  qed
next
  case (Expire i)
  then show ?thesis using assms(3)
    by (simp add: expireTarget_def passiveExpiry_def Let_def split: if_splits)
qed (simp_all add: spawnTick_def spawnTarget_def animationTick_def cleanupTick_def
       countdownTick_def endGame_fields split_beta)

lemma run_mean:
  assumes "gameMode g \<noteq> Precision" and "0 \<le> targetsMissed (gameStats g)"
    and "passiveExpiries save es g = 0"
  shows "targetsMissed (gameStats (run save es g)) =
           targetsMissed (gameStats g) + int (length (missDistances save es g))
       \<and> averageMissDistance (gameStats (run save es g))
             * of_int (targetsMissed (gameStats (run save es g))) =
           averageMissDistance (gameStats g) * of_int (targetsMissed (gameStats g))
             + sum_list (missDistances save es g)"
  using assms
proof (induction es arbitrary: g)
  case Nil
  then show ?case by simp
next
  case (Cons e es)
  have p1: "passiveExpiries save [e] g = 0" and p2: "passiveExpiries save es (step save e g) = 0"
    using Cons.prems(3) by simp_all
  define a where "a = missDistances save [e] g"
  define b where "b = missDistances save es (step save e g)"
  from step_mean [OF Cons.prems(1,2) p1]
  have s1: "targetsMissed (gameStats (step save e g)) = targetsMissed (gameStats g) + int (length a)"
    and s2: "averageMissDistance (gameStats (step save e g))
               * of_int (targetsMissed (gameStats (step save e g))) =
             averageMissDistance (gameStats g) * of_int (targetsMissed (gameStats g)) + sum_list a"
    unfolding a_def by blast+
  have m: "gameMode (step save e g) \<noteq> Precision" using Cons.prems(1) by (simp add: step_fixed)
  have n: "0 \<le> targetsMissed (gameStats (step save e g))"
    using s1 Cons.prems(2) by simp
  from Cons.IH [OF m n p2]
  have i1: "targetsMissed (gameStats (run save es (step save e g))) =
              targetsMissed (gameStats (step save e g)) + int (length b)"
    and i2: "averageMissDistance (gameStats (run save es (step save e g)))
               * of_int (targetsMissed (gameStats (run save es (step save e g)))) =
             averageMissDistance (gameStats (step save e g))
               * of_int (targetsMissed (gameStats (step save e g))) + sum_list b"
    unfolding b_def by blast+
  have l: "missDistances save (e # es) g = a @ b"
    unfolding a_def b_def by simp
  have t: "targetsMissed (gameStats (run save es (step save e g))) =
             targetsMissed (gameStats g) + int (length (a @ b))"
    using i1 s1 by simp
  have v: "averageMissDistance (gameStats (run save es (step save e g)))
             * of_int (targetsMissed (gameStats (run save es (step save e g)))) =
           averageMissDistance (gameStats g) * of_int (targetsMissed (gameStats g))
             + sum_list (a @ b)"
    using i2 s2 by simp
  show ?case unfolding run.simps l using t v by (rule conjI)
qed

lemma running_mean_without_penalties:
  assumes "gameMode g \<noteq> Precision"
    and "passiveExpiries save es (startGame now d g) = 0"
    and "missDistances save es (startGame now d g) \<noteq> []"
  shows "averageMissDistance (gameStats (run save es (startGame now d g))) =
           sum_list (missDistances save es (startGame now d g))
             / of_nat (length (missDistances save es (startGame now d g)))"
proof -
  let ?g0 = "startGame now d g"
  let ?ds = "missDistances save es ?g0"
  have m: "gameMode ?g0 \<noteq> Precision" using assms(1) by (simp add: startGame_fields)
  have n: "0 \<le> targetsMissed (gameStats ?g0)" by (simp add: startGame_fields)
  note rm = run_mean [OF m n assms(2)]
  have c: "targetsMissed (gameStats (run save es ?g0)) = int (length ?ds)"
    using rm [THEN conjunct1] by (simp add: startGame_fields)
  have "averageMissDistance (gameStats (run save es ?g0))
              * of_int (targetsMissed (gameStats (run save es ?g0))) = sum_list ?ds"
    using rm [THEN conjunct2] by (simp add: startGame_fields)
  then have a: "averageMissDistance (gameStats (run save es ?g0)) * real (length ?ds)
                  = sum_list ?ds"
    unfolding c by simp
  have "real (length ?ds) \<noteq> 0" using assms(3) by simp
  with a show ?thesis by (simp add: nonzero_eq_divide_eq)
qed

text \<open>
  Claim C2 states that \<open>averageMissDistance\<close> after the k-th active miss is the arithmetic
  mean of the k miss distances, whatever else happens in the session. The code takes
  \<open>targetsMissed\<close> for the number of samples, which in Precision mode grows by 2 per miss and
  in every mode grows with each passive expiry. In the Precision session with two misses
  at distances 45 and 75 the stored value is \<open>(45 \<cdot> 2 + 75) / 3 = 55\<close>, while the mean is 60.
  In the Classic session whose first target expires before the only miss, at distance 45,
  the stored value is \<open>(0 \<cdot> 1 + 45) / 2 = 22.5\<close>.
\<close>

theorem miss_average_precision:
  "map m_distance (missEffects (run (saveSession \<lparr>auth = None, db = []\<rparr>)
      [Click 95 50 100 0, Click 125 50 200 0]
      (startGame 0 \<lparr>nowId = 0, randId = 0, randX = 0, randY = 0, nowCreated = 0,
        randA = 1/2, randB = 0\<rparr> (initialGame\<lparr>gameMode := Precision\<rparr>))))
     = [45, 75]
   \<and> averageMissDistance (gameStats (run (saveSession \<lparr>auth = None, db = []\<rparr>)
      [Click 95 50 100 0, Click 125 50 200 0]
      (startGame 0 \<lparr>nowId = 0, randId = 0, randX = 0, randY = 0, nowCreated = 0,
        randA = 1/2, randB = 0\<rparr> (initialGame\<lparr>gameMode := Precision\<rparr>))))
     = 55
   \<and> map m_distance (missEffects (run (saveSession \<lparr>auth = None, db = []\<rparr>)
      [Expire 0, SpawnTick \<lparr>nowId = 1, randId = 0, randX = 0, randY = 0, nowCreated = 1,
        randA = 1/2, randB = 0\<rparr>, Click 95 50 3000 0]
      (startGame 0 \<lparr>nowId = 0, randId = 0, randX = 0, randY = 0, nowCreated = 0,
        randA = 1/2, randB = 0\<rparr> initialGame)))
     = [45]
   \<and> averageMissDistance (gameStats (run (saveSession \<lparr>auth = None, db = []\<rparr>)
      [Expire 0, SpawnTick \<lparr>nowId = 1, randId = 0, randX = 0, randY = 0, nowCreated = 1,
        randA = 1/2, randB = 0\<rparr>, Click 95 50 3000 0]
      (startGame 0 \<lparr>nowId = 0, randId = 0, randX = 0, randY = 0, nowCreated = 0,
        randA = 1/2, randB = 0\<rparr> initialGame)))
     = 45 / 2"
  by (simp add: session_defs clickDistance_horizontal)

end
